theory Spec2Isabelle
  imports Complex_Main "HOL-Library.Sublist" "HOL-Library.Signed_Division" "HOL-Library.Word"
begin

section \<open>The adversarial cross-lingual autoencoder of \<^verbatim>\<open>nmt/model.py\<close>\<close>

text \<open>
  The file \<^verbatim>\<open>src/nmt/model.py\<close> builds a TensorFlow graph with four
  encoder/decoder passes (s2s, t2t, s2t, t2s), a discriminator on the encoder outputs and
  two optimizer updates. This theory embeds the Python of that file:
  \<^item> a Python exception is a value of type \<open>error\<close>, a function that can raise returns
    \<open>error + 'a\<close>;
  \<^item> the global TensorFlow graph (the collection of trainable variables, by name) is
    passed explicitly through every function that creates variables;
  \<^item> a float32 tensor is modelled by its value in the reals for the current batch and
    the current variable values (rounding is not modelled); an int32 variable is a
    \<open>32 word\<close>;
  \<^item> TensorFlow's operations and the functions of \<^verbatim>\<open>model_helper\<close>, whose code
    is not part of the file, are parameters (the record \<open>ext\<close>).
\<close>

subsection \<open>Errors, modes and hyperparameters\<close>

datatype error =
    ValueError string
  | AttributeError string
  | AssertionError
  | IndexError
  | UnboundLocalError string
  | TypeError string

datatype mode = TRAIN | EVAL | INFER

text \<open>
  The fields of \<^verbatim>\<open>hparams\<close> that the file reads. \<open>num_residual_layers\<close> is
  read under \<^verbatim>\<open>hasattr\<close>, so it is optional. The fields that only configure the
  initializer, the saver and the embedding files are left out: they do not reach any
  value modelled here.
\<close>

record hparams =
  src_vocab_size :: nat
  tgt_vocab_size :: nat
  num_gpus :: nat
  time_major :: bool
  num_encoder_layers :: int
  num_decoder_layers :: int
  num_residual_layers :: "int option"
  num_encoder_residual_layers :: int
  num_decoder_residual_layers :: int
  learning_rate :: real
  warmup_steps :: int
  warmup_scheme :: string
  decay_scheme :: string
  num_train_steps :: int
  optimizer :: string
  max_gradient_norm :: real
  share_vocab :: bool
  num_units :: nat
  sos_2src :: string
  sos_2tgt :: string
  eos :: string
  unit_type :: string
  forget_bias :: real
  dropout :: real
  tgt_max_len_infer :: int
  beam_width :: int
  length_penalty_weight :: real
  sampling_temperature :: real
  encoder_type :: string
  attention :: bool

subsection \<open>The learning-rate schedule (lines 226-285)\<close>

text \<open>
  \<^verbatim>\<open>self.learning_rate\<close> is a tensor that depends on the global step: a function
  from the value of the step to the rate. The result \<open>None\<close> stands for a float that is
  not a finite number (a nan or an infinity), which arises only where the float arithmetic
  divides by zero (\<^verbatim>\<open>warmup_steps = 0\<close>, \<^verbatim>\<open>decay_steps = 0\<close>).
\<close>

type_synonym rate = "int \<Rightarrow> real option"

text \<open>Python's \<^verbatim>\<open>int(a / b)\<close> on integers: true division, then truncation
  towards zero.\<close>

definition py_int_div :: "int \<Rightarrow> int \<Rightarrow> int" where
  "py_int_div a b = a sdiv b"

text \<open>\<^verbatim>\<open>warmup_factor ** to_float(warmup_steps - global_step)\<close> with
  \<^verbatim>\<open>warmup_factor = exp(log(0.01) / warmup_steps)\<close>. For \<^verbatim>\<open>warmup_steps = 0\<close>
  the float quotient is \<^verbatim>\<open>-inf\<close> and the factor \<^verbatim>\<open>exp(-inf) = 0\<close>, whose power is 0,
  1 or \<^verbatim>\<open>inf\<close> as the exponent is positive, zero or negative.\<close>

definition inv_decay :: "int \<Rightarrow> int \<Rightarrow> real option" where
  "inv_decay ws gs =
     (if ws = 0 then (if gs < 0 then Some 0 else if gs = 0 then Some 1 else None)
      else Some (exp (ln 0.01 / real_of_int ws) powr real_of_int (ws - gs)))"

definition get_learning_rate_warmup :: "hparams \<Rightarrow> rate \<Rightarrow> error + rate" where
  "get_learning_rate_warmup hp lr =
     (if warmup_scheme hp = ''t2t'' then
        Inr (\<lambda>gs. if gs < warmup_steps hp
                 then (case (inv_decay (warmup_steps hp) gs, lr gs) of
                         (Some d, Some l) \<Rightarrow> Some (d * l)
                       | _ \<Rightarrow> None)
                 else lr gs)
      else Inl (ValueError ''Unknown warmup scheme''))"

text \<open>The Python part of \<^verbatim>\<open>_get_learning_rate_decay\<close>:
  \<open>(start_decay_step, decay_steps, decay_factor)\<close>.\<close>

definition learning_rate_decay_params :: "hparams \<Rightarrow> error + (int \<times> int \<times> real)" where
  "learning_rate_decay_params hp =
     (if decay_scheme hp \<in> {''luong5'', ''luong10'', ''luong234''} then
        (let (start_decay_step, decay_times) =
               (if decay_scheme hp = ''luong5'' then (py_int_div (num_train_steps hp) 2, 5)
                else if decay_scheme hp = ''luong10'' then (py_int_div (num_train_steps hp) 2, 10)
                else (py_int_div (num_train_steps hp * 2) 3, 4));
             remain_steps = num_train_steps hp - start_decay_step;
             decay_steps = py_int_div remain_steps decay_times
         in Inr (start_decay_step, decay_steps, 0.5))
      else if decay_scheme hp = [] then Inr (num_train_steps hp, 0, 1.0)
      else Inl (ValueError ''Unknown decay scheme''))"

text \<open>\<^verbatim>\<open>tf.train.exponential_decay(lr, step, decay_steps, rate, staircase=True)\<close>:
  \<^verbatim>\<open>lr * rate ** floor(step / decay_steps)\<close>, in floats. For \<^verbatim>\<open>decay_steps = 0\<close>
  the quotient is a nan (\<^verbatim>\<open>step = 0\<close>) or an infinity of the sign of the step, and the
  power is that of \<^verbatim>\<open>pow\<close>: 1 for the rate 1 and every exponent, 1 for the rate -1 and
  an infinite exponent, 0 where the rate is below 1 in absolute value and the exponent
  \<^verbatim>\<open>+inf\<close> or above 1 and the exponent \<^verbatim>\<open>-inf\<close>, and otherwise a nan or an infinity.
  So with no decay scheme (\<^verbatim>\<open>decay_steps = 0\<close>, factor 1.0) the rate is left as it is.\<close>

definition exponential_decay :: "real option \<Rightarrow> int \<Rightarrow> int \<Rightarrow> real \<Rightarrow> real option" where
  "exponential_decay lr step decay_steps decay_rate =
     (if decay_steps = 0 then
        (if decay_rate = 1 \<or> (decay_rate = - 1 \<and> step \<noteq> 0) then lr
         else if (0 < step \<and> \<bar>decay_rate\<bar> < 1) \<or> (step < 0 \<and> 1 < \<bar>decay_rate\<bar>)
         then map_option (\<lambda>l. l * 0) lr
         else None)
      else map_option
             (\<lambda>l. l * decay_rate powr real_of_int \<lfloor>real_of_int step / real_of_int decay_steps\<rfloor>)
             lr)"

definition get_learning_rate_decay :: "hparams \<Rightarrow> rate \<Rightarrow> error + rate" where
  "get_learning_rate_decay hp lr =
     (case learning_rate_decay_params hp of
        Inl e \<Rightarrow> Inl e
      | Inr (start_decay_step, decay_steps, decay_factor) \<Rightarrow>
          Inr (\<lambda>gs. if gs < start_decay_step then lr gs
                   else exponential_decay (lr gs) (gs - start_decay_step) decay_steps decay_factor))"

text \<open>Lines 169-173 of the constructor: the constant rate, then warmup, then decay.\<close>

definition build_learning_rate :: "hparams \<Rightarrow> error + rate" where
  "build_learning_rate hp =
     (case get_learning_rate_warmup hp (\<lambda>gs. Some (learning_rate hp)) of
        Inl e \<Rightarrow> Inl e
      | Inr warm \<Rightarrow> get_learning_rate_decay hp warm)"

subsection \<open>The parameter partition (lines 163-164)\<close>

text \<open>
  The graph's collection of trainable variables, by name and in creation order.
  \<^verbatim>\<open>tf.trainable_variables(scope)\<close> keeps the items whose name
  \<^verbatim>\<open>re.match\<close>es the scope. The pattern \<^verbatim>\<open>.*discriminator.*\<close> matches a name
  when \<^verbatim>\<open>discriminator\<close> occurs in its first line (\<^verbatim>\<open>.\<close> does not match a
  newline).
\<close>

type_synonym graph = "string list"

definition re_match_discriminator :: "string \<Rightarrow> bool" where
  "re_match_discriminator name =
     sublist ''discriminator'' (takeWhile (\<lambda>c. c \<noteq> CHR 0x0A) name)"

definition trainable_variables :: "graph \<Rightarrow> (string \<Rightarrow> bool) option \<Rightarrow> string list" where
  "trainable_variables g scope =
     (case scope of None \<Rightarrow> g | Some matches \<Rightarrow> filter matches g)"

definition params_D :: "graph \<Rightarrow> string list" where
  "params_D g = trainable_variables g (Some re_match_discriminator)"

text \<open>\<^verbatim>\<open>list(set(tf.trainable_variables()) - set(params_D))\<close>: the order of the
  list is the set's, which Python leaves open; the model keeps the creation order.\<close>

definition params_ae :: "graph \<Rightarrow> string list" where
  "params_ae g =
     filter (\<lambda>v. v \<notin> set (params_D g)) (remdups (trainable_variables g None))"

subsection \<open>Batches, tensors and the graph under construction\<close>

text \<open>\<^verbatim>\<open>iterator_utils.BatchedInput\<close>: token ids as \<open>[batch, time]\<close> matrices,
  lengths as int32 vectors.\<close>

record BatchedInput =
  source :: "nat list list"
  target_input :: "nat list list"
  target_output :: "nat list list"
  source_sequence_length :: "int list"
  target_sequence_length :: "int list"

type_synonym tensor2 = "real list list"
type_synonym tensor3 = "real list list list"

text \<open>A recurrent state is a tensor or a (nested) tuple of states.\<close>

datatype 'a nest = Leaf 'a | Tuple "'a nest list"

type_synonym rnn_state = "tensor2 nest"

text \<open>The decoder's logits are a tensor, or \<^verbatim>\<open>tf.no_op()\<close> under beam search; its
  sample ids are \<^verbatim>\<open>sample_id\<close> (rank 2) or beam search's \<^verbatim>\<open>predicted_ids\<close>
  (rank 3).\<close>

datatype logits = Logits tensor3 | NoOp

datatype sample_ids = SampleId "nat list list" | PredictedIds "nat list list list"

datatype words = Words2 "string list list" | Words3 "string list list list"

text \<open>\<^verbatim>\<open>model_helper.create_rnn_cell\<close> is not in the file: the cell it returns is
  represented by the arguments of the call.\<close>

record rnn_cell =
  cell_unit_type :: string
  cell_num_units :: nat
  cell_num_layers :: int
  cell_num_residual_layers :: int
  cell_forget_bias :: real
  cell_dropout :: real
  cell_num_gpus :: nat
  cell_mode :: mode
  cell_base_gpu :: int

text \<open>\<^verbatim>\<open>layers_core.Dense(units, use_bias=False, name=...)\<close>.\<close>

record dense_layer =
  dense_units :: nat
  dense_name :: string

datatype helper =
    SampleEmbeddingHelper tensor2 "nat list" nat real
  | GreedyEmbeddingHelper tensor2 "nat list" nat

text \<open>
  A function that builds part of the graph takes the graph built so far and returns an
  exception, or its result and the extended graph.
\<close>

type_synonym 'a build = "graph \<Rightarrow> error + ('a \<times> graph)"

definition ret :: "'a \<Rightarrow> 'a build" where
  "ret x g = Inr (x, g)"

definition raise :: "error \<Rightarrow> 'a build" where
  "raise e g = Inl e"

definition then_build :: "'a build \<Rightarrow> ('a \<Rightarrow> 'b build) \<Rightarrow> 'b build" where
  "then_build m f g = (case m g of Inl e \<Rightarrow> Inl e | Inr (x, g') \<Rightarrow> f x g')"

definition lift :: "error + 'a \<Rightarrow> 'a build" where
  "lift r g = (case r of Inl e \<Rightarrow> Inl e | Inr x \<Rightarrow> Inr (x, g))"

text \<open>\<^verbatim>\<open>with tf.variable_scope(name)\<close> inside the scope \<open>outer\<close> (the root scope is
  the empty name), and Python's \<^verbatim>\<open>scope or default\<close>.\<close>

definition variable_scope :: "string \<Rightarrow> string \<Rightarrow> string" where
  "variable_scope outer name = (if outer = [] then name else outer @ ''/'' @ name)"

definition py_or :: "string option \<Rightarrow> string \<Rightarrow> string" where
  "py_or scope d = (case scope of None \<Rightarrow> d | Some s \<Rightarrow> if s = [] then d else s)"

text \<open>\<^verbatim>\<open>tf.get_variable\<close> under \<^verbatim>\<open>reuse=tf.AUTO_REUSE\<close>: the variable of that
  name is created unless it exists.\<close>

definition get_variable_auto_reuse :: "string \<Rightarrow> graph \<Rightarrow> graph" where
  "get_variable_auto_reuse name g = (if name \<in> set g then g else g @ [name])"

subsection \<open>The external operations\<close>

text \<open>
  TensorFlow's operations and \<^verbatim>\<open>model_helper.create_emb_for_encoder_and_decoder\<close>.
  An operation that creates variables takes the name of the variable scope it is called
  in. \<open>tf_dense_tanh kernel bias units x\<close> is \<^verbatim>\<open>tanh(x . kernel + bias)\<close> for
  the variables of these names; \<open>tf_training_decode\<close> is a \<^verbatim>\<open>BasicDecoder\<close> with a
  \<^verbatim>\<open>TrainingHelper\<close> run by \<^verbatim>\<open>dynamic_decode\<close>; \<open>tf_helper_decode\<close> and
  \<open>tf_beam_search_decode\<close> are the two inference decoders, with the maximum number of
  iterations. \<open>tf_apply_optimizer\<close> is the effect of one \<^verbatim>\<open>apply_gradients\<close> of the
  named optimizer on the values of the variables it is given.
\<close>

record ext =
  mh_create_emb_for_encoder_and_decoder ::
    "bool \<Rightarrow> nat \<Rightarrow> nat \<Rightarrow> nat \<Rightarrow> nat \<Rightarrow> string option \<Rightarrow> (tensor2 \<times> tensor2) build"
  tf_embedding_lookup :: "tensor2 \<Rightarrow> nat list list \<Rightarrow> tensor3"
  tf_dynamic_rnn ::
    "string \<Rightarrow> rnn_cell \<Rightarrow> tensor3 \<Rightarrow> int list \<Rightarrow> bool \<Rightarrow> (tensor3 \<times> rnn_state) build"
  tf_bidirectional_dynamic_rnn ::
    "string \<Rightarrow> rnn_cell \<Rightarrow> rnn_cell \<Rightarrow> tensor3 \<Rightarrow> int list \<Rightarrow> bool
       \<Rightarrow> ((tensor3 \<times> tensor3) \<times> (rnn_state \<times> rnn_state)) build"
  tf_dense_tanh :: "string \<Rightarrow> string \<Rightarrow> nat \<Rightarrow> tensor3 \<Rightarrow> tensor3"
  tf_softmax :: "tensor3 \<Rightarrow> tensor3"
  tf_tile_batch :: "rnn_state \<Rightarrow> int \<Rightarrow> rnn_state"
  tf_training_decode ::
    "string \<Rightarrow> rnn_cell \<Rightarrow> rnn_state \<Rightarrow> tensor3 \<Rightarrow> int list \<Rightarrow> bool
       \<Rightarrow> (tensor3 \<times> nat list list \<times> rnn_state) build"
  tf_output_projection :: "string \<Rightarrow> dense_layer \<Rightarrow> tensor3 \<Rightarrow> tensor3 build"
  tf_beam_search_decode ::
    "string \<Rightarrow> rnn_cell \<Rightarrow> tensor2 \<Rightarrow> nat list \<Rightarrow> nat \<Rightarrow> rnn_state \<Rightarrow> int \<Rightarrow> dense_layer
       \<Rightarrow> real \<Rightarrow> int \<Rightarrow> bool \<Rightarrow> (nat list list list \<times> rnn_state) build"
  tf_helper_decode ::
    "string \<Rightarrow> rnn_cell \<Rightarrow> helper \<Rightarrow> rnn_state \<Rightarrow> dense_layer \<Rightarrow> int \<Rightarrow> bool
       \<Rightarrow> (tensor3 \<times> nat list list \<times> rnn_state) build"
  tf_sparse_softmax_cross_entropy_with_logits :: "real list \<Rightarrow> nat \<Rightarrow> real"
  tf_losses_sparse_softmax_cross_entropy :: "tensor3 \<Rightarrow> int list list \<Rightarrow> real"
  tf_apply_optimizer :: "string \<Rightarrow> string list \<Rightarrow> (string \<Rightarrow> tensor2) \<Rightarrow> (string \<Rightarrow> tensor2)"

subsection \<open>The session and the update operations\<close>

text \<open>
  The state a session holds: the int32 variable \<^verbatim>\<open>global_step\<close> and the values of
  the trainable variables. An update operation is the result of
  \<^verbatim>\<open>opt.apply_gradients(zip(clipped_grads, train_vars), global_step=...)\<close>:
  \<open>upd_global_step\<close> says whether a \<^verbatim>\<open>global_step\<close> variable was passed, which
  TensorFlow then increments by one after the variables are updated.
\<close>

record session =
  global_step :: "32 word"
  var_values :: "string \<Rightarrow> tensor2"

record update_op =
  upd_optimizer :: string
  upd_train_vars :: "string list"
  upd_global_step :: bool

definition run_update :: "ext \<Rightarrow> update_op \<Rightarrow> session \<Rightarrow> session" where
  "run_update X u s =
     s\<lparr> var_values := tf_apply_optimizer X (upd_optimizer u) (upd_train_vars u) (var_values s),
        global_step := (if upd_global_step u then global_step s + 1 else global_step s) \<rparr>"

subsection \<open>The model object\<close>

text \<open>The attributes the constructor assigns in TRAIN mode only (lines 136-140 and
  169-204), and in INFER mode only (lines 144-152).\<close>

record train_attrs =
  train_loss_ae :: "real option"
  train_loss_D :: "real option"
  word_count_s2s :: int
  self_learning_rate :: rate
  update_ae :: update_op
  update_D :: update_op

record infer_attrs =
  infer_logits_src :: logits
  final_context_state_src :: rnn_state
  sample_id_src :: sample_ids
  infer_logits_tgt :: logits
  final_context_state_tgt :: rnn_state
  sample_id_tgt :: sample_ids
  infer_cross_logits_src :: logits
  final_context_state_cross_src :: rnn_state
  sample_id_cross_src :: sample_ids
  infer_cross_logits_tgt :: logits
  final_context_state_cross_tgt :: rnn_state
  sample_id_cross_tgt :: sample_ids
  sample_words_src :: words
  sample_words_tgt :: words
  sample_words_src_cross :: words
  sample_words_tgt_cross :: words

text \<open>
  The instance: an attribute \<^verbatim>\<open>self.x\<close> is the field \<open>self_x\<close>. An attribute that
  only some paths of the constructor assign is optional, \<open>None\<close> when it was never
  assigned; reading it then raises \<^verbatim>\<open>AttributeError\<close>. The file assigns
  \<^verbatim>\<open>embedding_encoder\<close>, \<^verbatim>\<open>iterator_src\<close> and \<^verbatim>\<open>iterator_tgt\<close> nowhere
  (the constructor assigns \<^verbatim>\<open>embedding_src\<close>, \<^verbatim>\<open>embedding_tgt\<close> and the four
  iterators \<^verbatim>\<open>iterator_s2s\<close> ... \<^verbatim>\<open>iterator_t2s\<close>), but reads them in
  \<^verbatim>\<open>Model._build_encoder\<close> and \<^verbatim>\<open>infer_and_source\<close>.
\<close>

record BaseModel =
  self_iterator_s2s :: BatchedInput
  self_iterator_t2t :: BatchedInput
  self_iterator_s2t :: BatchedInput
  self_iterator_t2s :: BatchedInput
  self_mode :: mode
  self_src_vocab_table :: "string \<Rightarrow> nat"
  self_tgt_vocab_table :: "string \<Rightarrow> nat"
  self_num_gpus :: nat
  self_time_major :: bool
  self_num_encoder_layers :: int
  self_num_decoder_layers :: int
  self_num_encoder_residual_layers :: int
  self_num_decoder_residual_layers :: int
  self_embedding_src :: tensor2
  self_embedding_tgt :: tensor2
  self_batch_size :: nat
  self_output_layer_src :: dense_layer
  self_output_layer_tgt :: dense_layer
  self_train :: "train_attrs option"
  self_eval_loss :: "real option"
  self_infer :: "infer_attrs option"
  self_predict_count_s2s :: "int option"
  self_predict_count_t2t :: "int option"
  self_embedding_encoder :: "tensor2 option"
  self_iterator_src :: "BatchedInput option"
  self_iterator_tgt :: "BatchedInput option"

text \<open>The two abstract methods of \<^verbatim>\<open>BaseModel\<close>, which a subclass implements. The
  encoder is called inside a variable scope, whose name it is given.\<close>

record hooks =
  build_encoder ::
    "BaseModel \<Rightarrow> hparams \<Rightarrow> string \<Rightarrow> BatchedInput \<Rightarrow> tensor2 \<Rightarrow> (tensor3 \<times> rnn_state) build"
  build_decoder_cell ::
    "BaseModel \<Rightarrow> hparams \<Rightarrow> tensor3 \<Rightarrow> rnn_state \<Rightarrow> int list \<Rightarrow> error + (rnn_cell \<times> rnn_state)"

subsection \<open>The encoder and the decoder cell of class \<^verbatim>\<open>Model\<close> (lines 478-492, 747-870)\<close>

definition build_encoder_cell :: "BaseModel \<Rightarrow> hparams \<Rightarrow> int \<Rightarrow> int \<Rightarrow> int \<Rightarrow> rnn_cell" where
  "build_encoder_cell self hp num_layers num_residual base_gpu =
     \<lparr> cell_unit_type = unit_type hp, cell_num_units = num_units hp,
       cell_num_layers = num_layers, cell_num_residual_layers = num_residual,
       cell_forget_bias = forget_bias hp, cell_dropout = dropout hp,
       cell_num_gpus = num_gpus hp, cell_mode = self_mode self, cell_base_gpu = base_gpu \<rparr>"

text \<open>\<^verbatim>\<open>tf.concat(bi_outputs, -1)\<close> on two tensors of one shape.\<close>

definition concat_last :: "tensor3 \<times> tensor3 \<Rightarrow> tensor3" where
  "concat_last bi_outputs = map2 (map2 (@)) (fst bi_outputs) (snd bi_outputs)"

definition build_bidirectional_rnn ::
  "ext \<Rightarrow> BaseModel \<Rightarrow> string \<Rightarrow> tensor3 \<Rightarrow> int list \<Rightarrow> hparams \<Rightarrow> int \<Rightarrow> int \<Rightarrow> int
     \<Rightarrow> (tensor3 \<times> (rnn_state \<times> rnn_state)) build" where
  "build_bidirectional_rnn X self vs inputs sequence_length hp num_bi_layers
       num_bi_residual_layers base_gpu =
     (let fw_cell = build_encoder_cell self hp num_bi_layers num_bi_residual_layers base_gpu;
          bw_cell = build_encoder_cell self hp num_bi_layers num_bi_residual_layers
                      (base_gpu + num_bi_layers)
      in then_build
           (tf_bidirectional_dynamic_rnn X vs fw_cell bw_cell inputs sequence_length
              (self_time_major self))
           (\<lambda>(bi_outputs, bi_state). ret (concat_last bi_outputs, bi_state)))"

text \<open>\<^verbatim>\<open>state[layer_id]\<close> on the state of a multi-layer cell, a tuple with one
  entry per layer. (On a bare tensor Python would slice the tensor; the states of a
  multi-layer cell are tuples, and the model reports a tensor here as a
  \<^verbatim>\<open>TypeError\<close>.)\<close>

fun nest_index :: "'a nest \<Rightarrow> nat \<Rightarrow> error + 'a nest" where
  "nest_index (Tuple xs) i = (if i < length xs then Inr (xs ! i) else Inl IndexError)"
| "nest_index (Leaf x) i = Inl (TypeError ''state is not a tuple'')"

text \<open>The loop of lines 795-798 over \<^verbatim>\<open>range(num_bi_layers)\<close>.\<close>

fun interleave_states :: "rnn_state \<times> rnn_state \<Rightarrow> nat list \<Rightarrow> error + rnn_state list" where
  "interleave_states bi_encoder_state [] = Inr []"
| "interleave_states bi_encoder_state (layer_id # layer_ids) =
     (case nest_index (fst bi_encoder_state) layer_id of
        Inl e \<Rightarrow> Inl e
      | Inr forward \<Rightarrow>
          (case nest_index (snd bi_encoder_state) layer_id of
             Inl e \<Rightarrow> Inl e
           | Inr backward \<Rightarrow>
               (case interleave_states bi_encoder_state layer_ids of
                  Inl e \<Rightarrow> Inl e
                | Inr encoder_state \<Rightarrow> Inr (forward # backward # encoder_state))))"

definition py_range :: "int \<Rightarrow> nat list" where
  "py_range n = [0..<nat n]"

text \<open>
  \<^verbatim>\<open>Model._build_encoder\<close>. The embedding it looks the source up in is
  \<^verbatim>\<open>self.embedding_encoder\<close> (line 760), not its parameter \<^verbatim>\<open>embedding\<close>.
\<close>

definition Model_build_encoder ::
  "ext \<Rightarrow> BaseModel \<Rightarrow> hparams \<Rightarrow> string \<Rightarrow> BatchedInput \<Rightarrow> tensor2 \<Rightarrow> (tensor3 \<times> rnn_state) build" where
  "Model_build_encoder X self hp vs iterator embedding =
     (let num_layers = self_num_encoder_layers self;
          num_residual = self_num_encoder_residual_layers self;
          source' = (if self_time_major self then transpose (source iterator) else source iterator);
          scope = variable_scope vs ''encoder''
      in case self_embedding_encoder self of
           None \<Rightarrow> raise (AttributeError ''embedding_encoder'')
         | Some embedding_encoder \<Rightarrow>
             (let encoder_emb_inp = tf_embedding_lookup X embedding_encoder source' in
              if encoder_type hp = ''uni'' then
                tf_dynamic_rnn X scope (build_encoder_cell self hp num_layers num_residual 0)
                  encoder_emb_inp (source_sequence_length iterator) (self_time_major self)
              else if encoder_type hp = ''bi'' then
                (let num_bi_layers = py_int_div num_layers 2;
                     num_bi_residual_layers = py_int_div num_residual 2
                 in then_build
                      (build_bidirectional_rnn X self scope encoder_emb_inp
                         (source_sequence_length iterator) hp num_bi_layers num_bi_residual_layers 0)
                      (\<lambda>(encoder_outputs, bi_encoder_state).
                         if num_bi_layers = 1 then
                           ret (encoder_outputs, Tuple [fst bi_encoder_state, snd bi_encoder_state])
                         else
                           then_build (lift (interleave_states bi_encoder_state (py_range num_bi_layers)))
                             (\<lambda>encoder_state. ret (encoder_outputs, Tuple encoder_state))))
              else raise (ValueError ''Unknown encoder_type'')))"

definition Model_build_decoder_cell ::
  "ext \<Rightarrow> BaseModel \<Rightarrow> hparams \<Rightarrow> tensor3 \<Rightarrow> rnn_state \<Rightarrow> int list \<Rightarrow> error + (rnn_cell \<times> rnn_state)" where
  "Model_build_decoder_cell X self hp encoder_outputs encoder_state src_sequence_length =
     (if attention hp then Inl (ValueError ''BasicModel does not support attention.'')
      else
        (let cell = \<lparr> cell_unit_type = unit_type hp, cell_num_units = num_units hp,
                      cell_num_layers = self_num_decoder_layers self,
                      cell_num_residual_layers = self_num_decoder_residual_layers self,
                      cell_forget_bias = forget_bias hp, cell_dropout = dropout hp,
                      cell_num_gpus = self_num_gpus self, cell_mode = self_mode self,
                      cell_base_gpu = 0 \<rparr>;
             decoder_initial_state =
               (if self_mode self = INFER \<and> beam_width hp > 0
                then tf_tile_batch X encoder_state (beam_width hp) else encoder_state)
         in Inr (cell, decoder_initial_state)))"

definition Model_hooks :: "ext \<Rightarrow> hooks" where
  "Model_hooks X =
     \<lparr> build_encoder = Model_build_encoder X, build_decoder_cell = Model_build_decoder_cell X \<rparr>"

subsection \<open>The discriminator (lines 728-737)\<close>

text \<open>\<^verbatim>\<open>tf.layers.dense(inputs, units, activation=tf.nn.tanh, name=name)\<close> in the
  variable scope \<open>vs\<close>, which reuses its variables: the layer's kernel and bias are the
  variables of these names, created at the first call.\<close>

definition dense_kernel :: "string \<Rightarrow> string \<Rightarrow> string" where
  "dense_kernel vs name = variable_scope vs name @ ''/kernel:0''"

definition dense_bias :: "string \<Rightarrow> string \<Rightarrow> string" where
  "dense_bias vs name = variable_scope vs name @ ''/bias:0''"

definition layers_dense_tanh :: "ext \<Rightarrow> string \<Rightarrow> tensor3 \<Rightarrow> nat \<Rightarrow> string \<Rightarrow> tensor3 build" where
  "layers_dense_tanh X vs inputs units name g =
     (let kernel = dense_kernel vs name;
          bias = dense_bias vs name
      in Inr (tf_dense_tanh X kernel bias units inputs,
              get_variable_auto_reuse bias (get_variable_auto_reuse kernel g)))"

definition build_discriminator :: "ext \<Rightarrow> string \<Rightarrow> tensor3 \<Rightarrow> (tensor3 \<times> tensor3) build" where
  "build_discriminator X vs outputs =
     (let scope = variable_scope vs ''discriminator'' in
      then_build (layers_dense_tanh X scope outputs 1024 ''dense1_D'') (\<lambda>outputs1.
      then_build (layers_dense_tanh X scope outputs1 1024 ''dense2_D'') (\<lambda>outputs2.
      then_build (layers_dense_tanh X scope outputs2 2 ''dense_last_D'') (\<lambda>outputs3.
      ret (outputs3, tf_softmax X outputs3)))))"

definition compute_discriminator_loss :: "ext \<Rightarrow> tensor3 \<Rightarrow> int list list \<Rightarrow> real" where
  "compute_discriminator_loss X lg labels = tf_losses_sparse_softmax_cross_entropy X lg labels"

subsection \<open>The decoder (lines 494-624)\<close>

text \<open>\<^verbatim>\<open>tf.reduce_max\<close> of an int32 vector (the least int32 on an empty one).\<close>

definition reduce_max :: "int list \<Rightarrow> int" where
  "reduce_max xs = fold max xs (- (2 ^ 31))"

text \<open>\<^verbatim>\<open>tf.to_int32\<close> of a float with an integer value: the value where int32 holds
  it, and the least int32 where it does not (the result of the conversion on the CPU, as
  for twice the least int32 that an empty length vector gives).\<close>

definition to_int32 :: "int \<Rightarrow> int" where
  "to_int32 x = (if - (2 ^ 31) \<le> x \<and> x < 2 ^ 31 then x else - (2 ^ 31))"

text \<open>\<^verbatim>\<open>to_int32(round(to_float(max_encoder_length) * 2.0))\<close> is twice the length
  (exactly, for the lengths float32 represents), converted to int32.\<close>

definition get_infer_maximum_iterations :: "hparams \<Rightarrow> int list \<Rightarrow> int" where
  "get_infer_maximum_iterations hp src_sequence_length =
     (if tgt_max_len_infer hp \<noteq> 0 then tgt_max_len_infer hp
      else to_int32 (reduce_max src_sequence_length * 2))"

definition build_decoder ::
  "hooks \<Rightarrow> ext \<Rightarrow> BaseModel \<Rightarrow> hparams \<Rightarrow> string \<Rightarrow> tensor3 \<Rightarrow> rnn_state \<Rightarrow> BatchedInput
     \<Rightarrow> tensor2 \<Rightarrow> (string \<Rightarrow> nat) \<Rightarrow> dense_layer \<Rightarrow> string
     \<Rightarrow> (logits \<times> sample_ids \<times> rnn_state) build" where
  "build_decoder H X self hp vs encoder_outputs encoder_state iterator embedding vocab_table
       output_layer sos =
     (let tgt_sos_id = vocab_table sos;
          tgt_eos_id = vocab_table (eos hp);
          maximum_iterations = get_infer_maximum_iterations hp (source_sequence_length iterator);
          decoder_scope = variable_scope vs ''decoder''
      in then_build
           (lift (build_decoder_cell H self hp encoder_outputs encoder_state
                    (source_sequence_length iterator)))
           (\<lambda>(cell, decoder_initial_state).
              if self_mode self \<noteq> INFER then
                (let target_input' = (if self_time_major self then transpose (target_input iterator)
                                      else target_input iterator);
                     decoder_emb_inp = tf_embedding_lookup X embedding target_input'
                 in then_build
                      (tf_training_decode X decoder_scope cell decoder_initial_state decoder_emb_inp
                         (target_sequence_length iterator) (self_time_major self))
                      (\<lambda>(rnn_output, sample_id, final_context_state).
                         then_build (tf_output_projection X decoder_scope output_layer rnn_output)
                           (\<lambda>lg. ret (Logits lg, SampleId sample_id, final_context_state))))
              else
                (let start_tokens = replicate (self_batch_size self) tgt_sos_id;
                     end_token = tgt_eos_id
                 in if beam_width hp > 0 then
                      then_build
                        (tf_beam_search_decode X decoder_scope cell embedding start_tokens end_token
                           decoder_initial_state (beam_width hp) output_layer
                           (length_penalty_weight hp) maximum_iterations (self_time_major self))
                        (\<lambda>(predicted_ids, final_context_state).
                           ret (NoOp, PredictedIds predicted_ids, final_context_state))
                    else
                      (let helper =
                             (if sampling_temperature hp > 0
                              then SampleEmbeddingHelper embedding start_tokens end_token
                                     (sampling_temperature hp)
                              else GreedyEmbeddingHelper embedding start_tokens end_token)
                       in then_build
                            (tf_helper_decode X decoder_scope cell helper decoder_initial_state
                               output_layer maximum_iterations (self_time_major self))
                            (\<lambda>(rnn_output, sample_id, final_context_state).
                               ret (Logits rnn_output, SampleId sample_id, final_context_state))))))"

subsection \<open>The reconstruction loss (lines 626-662)\<close>

text \<open>The size of the time axis: axis 0 when time-major, else axis 1 (of a
  \<open>[batch, time]\<close> matrix with at least one row).\<close>

definition get_max_time :: "BaseModel \<Rightarrow> 'a list list \<Rightarrow> nat" where
  "get_max_time self tensor =
     (if self_time_major self then length tensor
      else (case tensor of [] \<Rightarrow> 0 | row # _ \<Rightarrow> length row))"

text \<open>\<^verbatim>\<open>tf.sequence_mask(lengths, maxlen, dtype=float32)\<close>.\<close>

definition sequence_mask :: "int list \<Rightarrow> nat \<Rightarrow> tensor2" where
  "sequence_mask lengths maxlen =
     map (\<lambda>l. map (\<lambda>j. if int j < l then 1 else 0) [0..<maxlen]) lengths"

definition reduce_sum :: "tensor2 \<Rightarrow> real" where
  "reduce_sum t = sum_list (map sum_list t)"

text \<open>
  \<^verbatim>\<open>_compute_loss\<close>. Lines 649-660 up to the division: the cross-entropy is taken
  position by position, the product with the weights element by element, on tensors of
  one shape, and everything is summed.
\<close>

definition masked_crossent_sum :: "ext \<Rightarrow> BaseModel \<Rightarrow> tensor3 \<Rightarrow> BatchedInput \<Rightarrow> real" where
  "masked_crossent_sum X self lg iterator =
     (let target_output' = (if self_time_major self then transpose (target_output iterator)
                            else target_output iterator);
          max_time = get_max_time self target_output';
          crossent = map2 (map2 (tf_sparse_softmax_cross_entropy_with_logits X)) lg target_output';
          target_weights = sequence_mask (target_sequence_length iterator) max_time;
          target_weights' = (if self_time_major self then transpose target_weights
                             else target_weights)
      in reduce_sum (map2 (map2 (*)) crossent target_weights'))"

text \<open>
  The division by \<^verbatim>\<open>tf.to_float(self.batch_size)\<close>. The quotient is the reals': for
  an empty s2s batch, where the batch size is 0, TensorFlow's quotient is an infinity or a
  nan and this one is 0.
\<close>

definition compute_loss :: "ext \<Rightarrow> BaseModel \<Rightarrow> logits \<Rightarrow> BatchedInput \<Rightarrow> error + real" where
  "compute_loss X self lgs iterator =
     (case lgs of
        NoOp \<Rightarrow> Inl (TypeError ''logits is not a tensor'')
      | Logits lg \<Rightarrow>
          Inr (masked_crossent_sum X self lg iterator / real (self_batch_size self)))"

subsection \<open>Graph construction (lines 336-462)\<close>

text \<open>The local variables of \<^verbatim>\<open>build_graph\<close> after its four passes
  (lines 359-415).\<close>

record passes =
  encoder_outputs_s2s :: tensor3
  encoder_outputs_t2t :: tensor3
  encoder_outputs_s2t :: tensor3
  encoder_outputs_t2s :: tensor3
  discriminator_logits_s2s :: tensor3
  discriminator_logits_t2t :: tensor3
  discriminator_logits_s2t :: tensor3
  discriminator_logits_t2s :: tensor3
  logits_s2s :: logits
  sample_id_s2s :: sample_ids
  final_context_state_s2s :: rnn_state
  logits_t2t :: logits
  sample_id_t2t :: sample_ids
  final_context_state_t2t :: rnn_state
  logits_s2t :: logits
  sample_id_s2t :: sample_ids
  final_context_state_s2t :: rnn_state
  logits_t2s :: logits
  sample_id_t2s :: sample_ids
  final_context_state_t2s :: rnn_state

text \<open>The variable scopes of lines 359, 363 and 389, entered from the root scope:
  \<^verbatim>\<open>scope or "dynamic_seq2seq"\<close>, and inside it \<^verbatim>\<open>scope or "auto"\<close> and
  \<^verbatim>\<open>scope or "cross"\<close>.\<close>

definition auto_scope :: "string option \<Rightarrow> string" where
  "auto_scope scope =
     variable_scope (variable_scope [] (py_or scope ''dynamic_seq2seq'')) (py_or scope ''auto'')"

definition cross_scope :: "string option \<Rightarrow> string" where
  "cross_scope scope =
     variable_scope (variable_scope [] (py_or scope ''dynamic_seq2seq'')) (py_or scope ''cross'')"

definition build_graph_passes ::
  "hooks \<Rightarrow> ext \<Rightarrow> BaseModel \<Rightarrow> hparams \<Rightarrow> string option \<Rightarrow> passes build" where
  "build_graph_passes H X self hp scope =
     (let auto = auto_scope scope;
          cross = cross_scope scope
      in
      then_build (build_encoder H self hp auto (self_iterator_s2s self) (self_embedding_src self))
        (\<lambda>(eo_s2s, es_s2s).
      then_build (build_encoder H self hp auto (self_iterator_t2t self) (self_embedding_tgt self))
        (\<lambda>(eo_t2t, es_t2t).
      then_build (build_discriminator X auto eo_s2s) (\<lambda>(dl_s2s, _).
      then_build (build_discriminator X auto eo_t2t) (\<lambda>(dl_t2t, _).
      then_build (build_decoder H X self hp auto eo_s2s es_s2s (self_iterator_s2s self)
                    (self_embedding_src self) (self_src_vocab_table self)
                    (self_output_layer_src self) (sos_2src hp))
        (\<lambda>(l_s2s, sid_s2s, fcs_s2s).
      then_build (build_decoder H X self hp auto eo_t2t es_t2t (self_iterator_t2t self)
                    (self_embedding_tgt self) (self_tgt_vocab_table self)
                    (self_output_layer_tgt self) (sos_2tgt hp))
        (\<lambda>(l_t2t, sid_t2t, fcs_t2t).
      then_build (build_encoder H self hp cross (self_iterator_s2t self) (self_embedding_src self))
        (\<lambda>(eo_s2t, es_s2t).
      then_build (build_encoder H self hp cross (self_iterator_t2s self) (self_embedding_tgt self))
        (\<lambda>(eo_t2s, es_t2s).
      then_build (build_discriminator X cross eo_s2t) (\<lambda>(dl_s2t, _).
      then_build (build_discriminator X cross eo_t2s) (\<lambda>(dl_t2s, _).
      then_build (build_decoder H X self hp cross eo_s2t es_s2t (self_iterator_s2t self)
                    (self_embedding_tgt self) (self_tgt_vocab_table self)
                    (self_output_layer_tgt self) (sos_2tgt hp))
        (\<lambda>(l_s2t, sid_s2t, fcs_s2t).
      then_build (build_decoder H X self hp cross eo_t2s es_t2s (self_iterator_t2s self)
                    (self_embedding_src self) (self_src_vocab_table self)
                    (self_output_layer_src self) (sos_2src hp))
        (\<lambda>(l_t2s, sid_t2s, fcs_t2s).
      ret \<lparr> encoder_outputs_s2s = eo_s2s, encoder_outputs_t2t = eo_t2t,
            encoder_outputs_s2t = eo_s2t, encoder_outputs_t2s = eo_t2s,
            discriminator_logits_s2s = dl_s2s, discriminator_logits_t2t = dl_t2t,
            discriminator_logits_s2t = dl_s2t, discriminator_logits_t2s = dl_t2s,
            logits_s2s = l_s2s, sample_id_s2s = sid_s2s, final_context_state_s2s = fcs_s2s,
            logits_t2t = l_t2t, sample_id_t2t = sid_t2t, final_context_state_t2t = fcs_t2t,
            logits_s2t = l_s2t, sample_id_s2t = sid_s2t, final_context_state_s2t = fcs_s2t,
            logits_t2s = l_t2s, sample_id_t2s = sid_t2s, final_context_state_t2s = fcs_t2s
          \<rparr>)))))))))))))"

text \<open>The local variables of the loss block (lines 418-453), built in TRAIN and EVAL
  mode.\<close>

record losses =
  loss_auto_s2s :: real
  loss_auto_t2t :: real
  loss_cross_s2t :: real
  loss_cross_t2s :: real
  loss_D_s2s :: real
  loss_D_s2t :: real
  loss_D_t2t :: real
  loss_D_t2s :: real
  loss_adv_s2s :: real
  loss_adv_s2t :: real
  loss_adv_t2t :: real
  loss_adv_t2s :: real
  loss_adv :: real
  loss_auto_total :: real
  loss_cross_total :: real
  loss_D_total :: real
  loss :: real

definition zeros_like :: "nat list list \<Rightarrow> int list list" where
  "zeros_like t = map (map (\<lambda>_. 0)) t"

definition ones_like :: "nat list list \<Rightarrow> int list list" where
  "ones_like t = map (map (\<lambda>_. 1)) t"

text \<open>\<^verbatim>\<open>1 - labels\<close>.\<close>

definition one_minus :: "int list list \<Rightarrow> int list list" where
  "one_minus labels = map (map (\<lambda>y. 1 - y)) labels"

definition add_n :: "real list \<Rightarrow> real" where
  "add_n xs = sum_list xs"

definition build_graph_losses :: "ext \<Rightarrow> BaseModel \<Rightarrow> passes \<Rightarrow> error + losses" where
  "build_graph_losses X self p =
     (case compute_loss X self (logits_s2s p) (self_iterator_s2s self) of Inl e \<Rightarrow> Inl e
      | Inr l_auto_s2s \<Rightarrow>
     (case compute_loss X self (logits_t2t p) (self_iterator_t2t self) of Inl e \<Rightarrow> Inl e
      | Inr l_auto_t2t \<Rightarrow>
     (case compute_loss X self (logits_s2t p) (self_iterator_s2t self) of Inl e \<Rightarrow> Inl e
      | Inr l_cross_s2t \<Rightarrow>
     (case compute_loss X self (logits_t2s p) (self_iterator_t2s self) of Inl e \<Rightarrow> Inl e
      | Inr l_cross_t2s \<Rightarrow>
     (let D_labels_s2s = zeros_like (source (self_iterator_s2s self));
          l_D_s2s = compute_discriminator_loss X (discriminator_logits_s2s p) D_labels_s2s;
          D_labels_s2t = zeros_like (source (self_iterator_s2t self));
          l_D_s2t = compute_discriminator_loss X (discriminator_logits_s2t p) D_labels_s2t;
          D_labels_t2t = ones_like (source (self_iterator_t2t self));
          l_D_t2t = compute_discriminator_loss X (discriminator_logits_t2t p) D_labels_t2t;
          D_labels_t2s = ones_like (source (self_iterator_t2s self));
          l_D_t2s = compute_discriminator_loss X (discriminator_logits_t2s p) D_labels_t2s;
          l_adv_s2s = compute_discriminator_loss X (discriminator_logits_s2s p)
                        (one_minus D_labels_s2s);
          l_adv_s2t = compute_discriminator_loss X (discriminator_logits_s2t p)
                        (one_minus D_labels_s2t);
          l_adv_t2t = compute_discriminator_loss X (discriminator_logits_t2t p)
                        (one_minus D_labels_t2t);
          l_adv_t2s = compute_discriminator_loss X (discriminator_logits_t2s p)
                        (one_minus D_labels_t2s);
          l_adv = add_n [l_adv_s2s, l_adv_s2t, l_adv_t2t, l_adv_t2s];
          l_auto_total = l_auto_s2s + l_auto_t2t;
          l_cross_total = l_cross_s2t + l_cross_t2s;
          l_D_total = add_n [l_D_s2s, l_D_s2t, l_D_t2t, l_D_t2s];
          l = add_n [l_auto_total, l_D_total, l_cross_total]
      in Inr \<lparr> loss_auto_s2s = l_auto_s2s, loss_auto_t2t = l_auto_t2t,
                loss_cross_s2t = l_cross_s2t, loss_cross_t2s = l_cross_t2s,
                loss_D_s2s = l_D_s2s, loss_D_s2t = l_D_s2t, loss_D_t2t = l_D_t2t,
                loss_D_t2s = l_D_t2s, loss_adv_s2s = l_adv_s2s, loss_adv_s2t = l_adv_s2t,
                loss_adv_t2t = l_adv_t2t, loss_adv_t2s = l_adv_t2s, loss_adv = l_adv,
                loss_auto_total = l_auto_total, loss_cross_total = l_cross_total,
                loss_D_total = l_D_total, loss = l \<rparr>)))))"

text \<open>
  \<^verbatim>\<open>build_graph\<close> returns the four passes' \<open>(logits, final_context_state, sample_id)\<close>
  and the pair \<^verbatim>\<open>loss, loss_adv\<close> (both \<^verbatim>\<open>None\<close> in INFER mode).
\<close>

type_synonym pass_result = "logits \<times> rnn_state \<times> sample_ids"

definition build_graph ::
  "hooks \<Rightarrow> ext \<Rightarrow> BaseModel \<Rightarrow> hparams \<Rightarrow> string option
     \<Rightarrow> (pass_result \<times> pass_result \<times> pass_result \<times> pass_result \<times> real option \<times> real option) build" where
  "build_graph H X self hp scope =
     then_build (build_graph_passes H X self hp scope) (\<lambda>p.
     then_build
       (if self_mode self \<noteq> INFER
        then then_build (lift (build_graph_losses X self p))
               (\<lambda>l. ret (Some (loss l), Some (loss_adv l)))
        else ret (None, None))
       (\<lambda>(l, l_adv).
          ret ((logits_s2s p, final_context_state_s2s p, sample_id_s2s p),
               (logits_t2t p, final_context_state_t2t p, sample_id_t2t p),
               (logits_s2t p, final_context_state_s2t p, sample_id_s2t p),
               (logits_t2s p, final_context_state_t2s p, sample_id_t2s p),
               l, l_adv)))"

subsection \<open>The constructor (lines 40-224)\<close>

text \<open>
  Lines 67-129: the attributes assigned before the graph is built. The batch size of the
  model is the size of the s2s iterator's source-length vector (line 121).
\<close>

definition init_attributes ::
  "ext \<Rightarrow> hparams \<Rightarrow> mode \<Rightarrow> BatchedInput \<Rightarrow> BatchedInput \<Rightarrow> BatchedInput \<Rightarrow> BatchedInput
     \<Rightarrow> (string \<Rightarrow> nat) \<Rightarrow> (string \<Rightarrow> nat) \<Rightarrow> string option \<Rightarrow> BaseModel build" where
  "init_attributes X hp md iterator_s2s iterator_t2t iterator_s2t iterator_t2s
       source_vocab_table target_vocab_table scope =
     (if num_encoder_layers hp = 0 \<or> num_decoder_layers hp = 0 then raise AssertionError
      else
        then_build
          (mh_create_emb_for_encoder_and_decoder X (share_vocab hp) (src_vocab_size hp)
             (tgt_vocab_size hp) (num_units hp) (num_units hp) scope)
          (\<lambda>(embedding_src, embedding_tgt).
             ret \<lparr> self_iterator_s2s = iterator_s2s, self_iterator_t2t = iterator_t2t,
                   self_iterator_s2t = iterator_s2t, self_iterator_t2s = iterator_t2s,
                   self_mode = md,
                   self_src_vocab_table = source_vocab_table,
                   self_tgt_vocab_table = target_vocab_table,
                   self_num_gpus = num_gpus hp,
                   self_time_major = time_major hp,
                   self_num_encoder_layers = num_encoder_layers hp,
                   self_num_decoder_layers = num_decoder_layers hp,
                   self_num_encoder_residual_layers =
                     (case num_residual_layers hp of Some n \<Rightarrow> n
                      | None \<Rightarrow> num_encoder_residual_layers hp),
                   self_num_decoder_residual_layers =
                     (case num_residual_layers hp of Some n \<Rightarrow> n
                      | None \<Rightarrow> num_decoder_residual_layers hp),
                   self_embedding_src = embedding_src,
                   self_embedding_tgt = embedding_tgt,
                   self_batch_size = length (source_sequence_length iterator_s2s),
                   self_output_layer_src =
                     \<lparr> dense_units = src_vocab_size hp, dense_name = ''output_projection_src'' \<rparr>,
                   self_output_layer_tgt =
                     \<lparr> dense_units = tgt_vocab_size hp, dense_name = ''output_projection_tgt'' \<rparr>,
                   self_train = None, self_eval_loss = None, self_infer = None,
                   self_predict_count_s2s = None, self_predict_count_t2t = None,
                   self_embedding_encoder = None,
                   self_iterator_src = None, self_iterator_tgt = None \<rparr>))"

text \<open>\<^verbatim>\<open>table.lookup(tf.to_int64(sample_id))\<close>; the reverse tables default to
  \<^verbatim>\<open>None\<close>, which has no \<^verbatim>\<open>lookup\<close>.\<close>

definition reverse_lookup :: "(nat \<Rightarrow> string) option \<Rightarrow> sample_ids \<Rightarrow> error + words" where
  "reverse_lookup table ids =
     (case table of
        None \<Rightarrow> Inl (AttributeError ''lookup'')
      | Some t \<Rightarrow>
          (case ids of
             SampleId x \<Rightarrow> Inr (Words2 (map (map t) x))
           | PredictedIds x \<Rightarrow> Inr (Words3 (map (map (map t)) x))))"

text \<open>Lines 141-159: the attributes of EVAL and INFER mode and the predicted-word
  counts. (The TRAIN attributes of lines 136-140 are assigned with the others of TRAIN
  mode, in \<open>init_training\<close>: nothing between can raise in TRAIN mode.)\<close>

definition init_results ::
  "BaseModel \<Rightarrow> (nat \<Rightarrow> string) option \<Rightarrow> (nat \<Rightarrow> string) option
     \<Rightarrow> pass_result \<Rightarrow> pass_result \<Rightarrow> pass_result \<Rightarrow> pass_result \<Rightarrow> real option
     \<Rightarrow> error + BaseModel" where
  "init_results self reverse_source_vocab_table reverse_target_vocab_table
       src2src tgt2tgt src2tgt tgt2src l_ae =
     (let counts = (\<lambda>m. if self_mode self \<noteq> INFER
                        then m\<lparr> self_predict_count_s2s :=
                                  Some (sum_list (target_sequence_length (self_iterator_s2s self))),
                                self_predict_count_t2t :=
                                  Some (sum_list (target_sequence_length (self_iterator_t2t self))) \<rparr>
                        else m)
      in
      if self_mode self = TRAIN then Inr (counts self)
      else if self_mode self = EVAL then Inr (counts (self\<lparr> self_eval_loss := l_ae \<rparr>))
      else
        (case reverse_lookup reverse_source_vocab_table (snd (snd src2src)) of Inl e \<Rightarrow> Inl e
         | Inr w_src \<Rightarrow>
        (case reverse_lookup reverse_target_vocab_table (snd (snd tgt2tgt)) of Inl e \<Rightarrow> Inl e
         | Inr w_tgt \<Rightarrow>
        (case reverse_lookup reverse_source_vocab_table (snd (snd tgt2src)) of Inl e \<Rightarrow> Inl e
         | Inr w_src_cross \<Rightarrow>
        (case reverse_lookup reverse_target_vocab_table (snd (snd src2tgt)) of Inl e \<Rightarrow> Inl e
         | Inr w_tgt_cross \<Rightarrow>
           Inr (counts (self\<lparr> self_infer := Some
                  \<lparr> infer_logits_src = fst src2src,
                    final_context_state_src = fst (snd src2src),
                    sample_id_src = snd (snd src2src),
                    infer_logits_tgt = fst tgt2tgt,
                    final_context_state_tgt = fst (snd tgt2tgt),
                    sample_id_tgt = snd (snd tgt2tgt),
                    infer_cross_logits_src = fst tgt2src,
                    final_context_state_cross_src = fst (snd tgt2src),
                    sample_id_cross_src = snd (snd tgt2src),
                    infer_cross_logits_tgt = fst src2tgt,
                    final_context_state_cross_tgt = fst (snd src2tgt),
                    sample_id_cross_tgt = snd (snd src2tgt),
                    sample_words_src = w_src, sample_words_tgt = w_tgt,
                    sample_words_src_cross = w_src_cross,
                    sample_words_tgt_cross = w_tgt_cross \<rparr> \<rparr>)))))))"

text \<open>
  \<^verbatim>\<open>train_params\<close> (lines 175-201): the optimizer is bound for \<^verbatim>\<open>sgd\<close> and
  \<^verbatim>\<open>adam\<close> only; the update is
  \<^verbatim>\<open>opt.apply_gradients(zip(clipped_grads, train_vars), global_step=self.global_step)\<close>.
  The gradients, their norm and the summaries are TensorFlow's and not modelled.
\<close>

definition train_params :: "hparams \<Rightarrow> string list \<Rightarrow> real option \<Rightarrow> error + update_op" where
  "train_params hp train_vars train_loss =
     (if optimizer hp = ''sgd'' \<or> optimizer hp = ''adam''
      then Inr \<lparr> upd_optimizer = optimizer hp, upd_train_vars = train_vars,
                 upd_global_step = True \<rparr>
      else Inl (UnboundLocalError ''opt''))"

text \<open>Lines 136-140 and 161-205: the parameter sets, and in TRAIN mode the losses, the
  learning rate and the two updates.\<close>

definition init_training ::
  "hparams \<Rightarrow> BaseModel \<Rightarrow> real option \<Rightarrow> real option \<Rightarrow> graph \<Rightarrow> error + BaseModel" where
  "init_training hp self l_ae l_D g =
     (if self_mode self = TRAIN then
        (case build_learning_rate hp of Inl e \<Rightarrow> Inl e
         | Inr lr \<Rightarrow>
        (case train_params hp (params_ae g) l_ae of Inl e \<Rightarrow> Inl e
         | Inr upd_ae \<Rightarrow>
        (case train_params hp (params_D g) l_D of Inl e \<Rightarrow> Inl e
         | Inr upd_D \<Rightarrow>
           Inr (self\<lparr> self_train := Some
                  \<lparr> train_loss_ae = l_ae, train_loss_D = l_D,
                    word_count_s2s =
                      sum_list (source_sequence_length (self_iterator_s2s self))
                      + sum_list (target_sequence_length (self_iterator_s2s self)),
                    self_learning_rate = lr, update_ae = upd_ae, update_D = upd_D \<rparr> \<rparr>))))
      else Inr self)"

text \<open>
  \<^verbatim>\<open>BaseModel.__init__\<close>. Line 132 unpacks the result of \<^verbatim>\<open>build_graph\<close> as
  \<^verbatim>\<open>src2src, tgt2tgt, src2tgt, tgt2src, train_loss_ae, train_loss_D\<close>.
\<close>

definition BaseModel_init ::
  "hooks \<Rightarrow> ext \<Rightarrow> hparams \<Rightarrow> mode \<Rightarrow> BatchedInput \<Rightarrow> BatchedInput \<Rightarrow> BatchedInput
     \<Rightarrow> BatchedInput \<Rightarrow> (string \<Rightarrow> nat) \<Rightarrow> (string \<Rightarrow> nat) \<Rightarrow> (nat \<Rightarrow> string) option
     \<Rightarrow> (nat \<Rightarrow> string) option \<Rightarrow> string option \<Rightarrow> BaseModel build" where
  "BaseModel_init H X hp md iterator_s2s iterator_t2t iterator_s2t iterator_t2s
       source_vocab_table target_vocab_table reverse_source_vocab_table
       reverse_target_vocab_table scope =
     then_build
       (init_attributes X hp md iterator_s2s iterator_t2t iterator_s2t iterator_t2s
          source_vocab_table target_vocab_table scope)
       (\<lambda>self.
     then_build (build_graph H X self hp scope)
       (\<lambda>(src2src, tgt2tgt, src2tgt, tgt2src, l_ae, l_D).
     then_build
       (lift (init_results self reverse_source_vocab_table reverse_target_vocab_table
                src2src tgt2tgt src2tgt tgt2src l_ae))
       (\<lambda>self'. (\<lambda>g. lift (init_training hp self' l_ae l_D g) g))))"

text \<open>The constructor of class \<^verbatim>\<open>Model\<close>, which inherits it.\<close>

definition Model_init ::
  "ext \<Rightarrow> hparams \<Rightarrow> mode \<Rightarrow> BatchedInput \<Rightarrow> BatchedInput \<Rightarrow> BatchedInput
     \<Rightarrow> BatchedInput \<Rightarrow> (string \<Rightarrow> nat) \<Rightarrow> (string \<Rightarrow> nat) \<Rightarrow> (nat \<Rightarrow> string) option
     \<Rightarrow> (nat \<Rightarrow> string) option \<Rightarrow> string option \<Rightarrow> BaseModel build" where
  "Model_init X = BaseModel_init (Model_hooks X) X"

subsection \<open>Running the model (lines 304-327, 684-691)\<close>

text \<open>The session that \<^verbatim>\<open>self.global_step = tf.Variable(0, trainable=False)\<close>
  starts from.\<close>

definition initial_session :: "(string \<Rightarrow> tensor2) \<Rightarrow> session" where
  "initial_session vals = \<lparr> global_step = 0, var_values = vals \<rparr>"

text \<open>
  \<^verbatim>\<open>train\<close>: two calls of \<^verbatim>\<open>sess.run\<close>, the first fetching
  \<^verbatim>\<open>update_ae\<close>, the second \<^verbatim>\<open>update_D\<close>. The result is the session after
  both; the fetched losses, counts and summaries are not modelled.
\<close>

definition train :: "ext \<Rightarrow> BaseModel \<Rightarrow> session \<Rightarrow> error + session" where
  "train X self sess =
     (if self_mode self \<noteq> TRAIN then Inl AssertionError
      else (case self_train self of
              None \<Rightarrow> Inl (AttributeError ''update_ae'')
            | Some t \<Rightarrow> Inr (run_update X (update_D t) (run_update X (update_ae t) sess))))"

text \<open>\<^verbatim>\<open>infer_and_source\<close>: the assertion on the mode, then the fetch list, whose
  first item reads \<^verbatim>\<open>self.iterator_src.source\<close>.\<close>

definition infer_and_source ::
  "BaseModel \<Rightarrow> session
     \<Rightarrow> error + ((nat list list \<times> logits \<times> sample_ids \<times> words)
                \<times> (nat list list \<times> logits \<times> sample_ids \<times> words))" where
  "infer_and_source self sess =
     (if self_mode self \<noteq> INFER then Inl AssertionError
      else (case self_iterator_src self of
              None \<Rightarrow> Inl (AttributeError ''iterator_src'')
            | Some iterator_src \<Rightarrow>
        (case self_infer self of
           None \<Rightarrow> Inl (AttributeError ''infer_logits_src'')
         | Some i \<Rightarrow>
        (case self_iterator_tgt self of
           None \<Rightarrow> Inl (AttributeError ''iterator_tgt'')
         | Some iterator_tgt \<Rightarrow>
             Inr ((source iterator_src, infer_logits_src i, sample_id_src i, sample_words_src i),
                  (source iterator_tgt, infer_logits_tgt i, sample_id_tgt i, sample_words_tgt i))))))"

subsection \<open>Vocabulary of the properties\<close>

text \<open>
  The weight set the discriminator has in the variable scope \<open>vs\<close>: kernel and bias of
  its three dense layers. \<open>discriminator_net\<close> is the three-layer network on these
  variables.
\<close>

definition discriminator_weights :: "string \<Rightarrow> string list" where
  "discriminator_weights vs =
     (let scope = variable_scope vs ''discriminator'' in
      [dense_kernel scope ''dense1_D'', dense_bias scope ''dense1_D'',
       dense_kernel scope ''dense2_D'', dense_bias scope ''dense2_D'',
       dense_kernel scope ''dense_last_D'', dense_bias scope ''dense_last_D''])"

definition discriminator_net :: "ext \<Rightarrow> string \<Rightarrow> tensor3 \<Rightarrow> tensor3" where
  "discriminator_net X vs x =
     (let scope = variable_scope vs ''discriminator'' in
      tf_dense_tanh X (dense_kernel scope ''dense_last_D'') (dense_bias scope ''dense_last_D'') 2
        (tf_dense_tanh X (dense_kernel scope ''dense2_D'') (dense_bias scope ''dense2_D'') 1024
          (tf_dense_tanh X (dense_kernel scope ''dense1_D'') (dense_bias scope ''dense1_D'') 1024 x)))"

text \<open>The rate that the schedule built by the constructor yields at a value of the
  global step.\<close>

definition learning_rate_at :: "hparams \<Rightarrow> int \<Rightarrow> error + real option" where
  "learning_rate_at hp gs = map_sum id (\<lambda>f. f gs) (build_learning_rate hp)"

text \<open>The logit vector at batch index \<open>b\<close> and time \<open>t\<close>, and a batch and its logits
  repeated along the batch axis.\<close>

definition logit_at :: "BaseModel \<Rightarrow> tensor3 \<Rightarrow> nat \<Rightarrow> nat \<Rightarrow> real list" where
  "logit_at self lg b t = (if self_time_major self then lg ! t ! b else lg ! b ! t)"

text \<open>The cross-entropy of the token at batch index \<open>b\<close> and time \<open>t\<close>, or 0 at a
  position that is not below the sequence's true target length.\<close>

definition masked_term :: "ext \<Rightarrow> BaseModel \<Rightarrow> tensor3 \<Rightarrow> BatchedInput \<Rightarrow> nat \<Rightarrow> nat \<Rightarrow> real" where
  "masked_term X self lg it b t =
     (if int t < target_sequence_length it ! b
      then tf_sparse_softmax_cross_entropy_with_logits X (logit_at self lg b t)
             (target_output it ! b ! t)
      else 0)"

definition tile_batch :: "BatchedInput \<Rightarrow> BatchedInput" where
  "tile_batch it =
     \<lparr> source = source it @ source it,
       target_input = target_input it @ target_input it,
       target_output = target_output it @ target_output it,
       source_sequence_length = source_sequence_length it @ source_sequence_length it,
       target_sequence_length = target_sequence_length it @ target_sequence_length it \<rparr>"

definition tile_logits :: "BaseModel \<Rightarrow> tensor3 \<Rightarrow> tensor3" where
  "tile_logits self lg = (if self_time_major self then map (\<lambda>row. row @ row) lg else lg @ lg)"

text \<open>The shapes \<^verbatim>\<open>_compute_loss\<close> is called on: \<open>B\<close> target rows of \<open>T\<close> tokens with
  \<open>B\<close> lengths, and logits of shape \<open>[B, T]\<close>, or \<open>[T, B]\<close> when time-major.\<close>

definition loss_shapes :: "BaseModel \<Rightarrow> tensor3 \<Rightarrow> BatchedInput \<Rightarrow> nat \<Rightarrow> nat \<Rightarrow> bool" where
  "loss_shapes self lg it B T \<longleftrightarrow>
     length (target_output it) = B \<and> length (target_sequence_length it) = B
     \<and> (\<forall>row \<in> set (target_output it). length row = T)
     \<and> (if self_time_major self
        then length lg = T \<and> (\<forall>row \<in> set lg. length row = B)
        else length lg = B \<and> (\<forall>row \<in> set lg. length row = T))"

subsection \<open>A small instance\<close>

text \<open>
  Hyperparameters, batches and stand-ins for the external operations, on which the
  definitions above can be run: a vocabulary of two tokens, a bidirectional encoder with
  four layers, an s2s batch of one sequence and a t2t batch of two. The stand-in
  recurrent networks repeat their input, the stand-in dense layer keeps the first
  \<open>units\<close> features, the output projection yields zero logits, and the two
  cross-entropies are the usual \<^verbatim>\<open>log(sum(exp(logits))) - logits[label]\<close> and its
  mean.
\<close>

definition hparams_example :: hparams where
  "hparams_example =
     \<lparr> src_vocab_size = 2, tgt_vocab_size = 2, num_gpus = 1, time_major = False,
       num_encoder_layers = 4, num_decoder_layers = 2, num_residual_layers = None,
       num_encoder_residual_layers = 0, num_decoder_residual_layers = 0,
       learning_rate = 1, warmup_steps = 100, warmup_scheme = ''t2t'',
       decay_scheme = ''luong5'', num_train_steps = 1000, optimizer = ''sgd'',
       max_gradient_norm = 5, share_vocab = False, num_units = 2,
       sos_2src = ''sos_src'', sos_2tgt = ''sos_tgt'', eos = ''eos'', unit_type = ''lstm'',
       forget_bias = 1, dropout = 0, tgt_max_len_infer = 0, beam_width = 0,
       length_penalty_weight = 0, sampling_temperature = 0, encoder_type = ''bi'',
       attention = False \<rparr>"

definition batch_one :: BatchedInput where
  "batch_one =
     \<lparr> source = [[0]], target_input = [[0]], target_output = [[0]],
       source_sequence_length = [1], target_sequence_length = [1] \<rparr>"

definition batch_two :: BatchedInput where
  "batch_two =
     \<lparr> source = [[0], [0]], target_input = [[0], [0]], target_output = [[0], [0]],
       source_sequence_length = [1, 1], target_sequence_length = [1, 1] \<rparr>"

definition batch_ragged :: BatchedInput where
  "batch_ragged =
     \<lparr> source = [[0, 0, 0], [0, 0, 0]], target_input = [[0, 0, 0], [0, 0, 0]],
       target_output = [[0, 1, 0], [1, 0, 0]],
       source_sequence_length = [3, 1], target_sequence_length = [3, 1] \<rparr>"

definition layer_states :: "rnn_cell \<Rightarrow> real \<Rightarrow> rnn_state" where
  "layer_states cell x =
     (if cell_num_layers cell = 1 then Leaf [[x]]
      else Tuple (map (\<lambda>i. Leaf [[x + real i]]) [0..<nat (cell_num_layers cell)]))"

definition softmax_crossent :: "real list \<Rightarrow> nat \<Rightarrow> real" where
  "softmax_crossent lg y = ln (sum_list (map exp lg)) - lg ! y"

definition mean_softmax_crossent :: "tensor3 \<Rightarrow> int list list \<Rightarrow> real" where
  "mean_softmax_crossent lg labels =
     (let xs = concat (map2 (map2 (\<lambda>l y. softmax_crossent l (nat y))) lg labels)
      in sum_list xs / real (length xs))"

definition ext_example :: ext where
  "ext_example =
     \<lparr> mh_create_emb_for_encoder_and_decoder =
         (\<lambda>share sv tv se te scope g.
            Inr (([[0, 1/2], [0, 1/2]], [[0, 0], [0, 0]]),
                 g @ [''embeddings/embedding_src:0'', ''embeddings/embedding_tgt:0''])),
       tf_embedding_lookup = (\<lambda>table ids. map (map (\<lambda>i. table ! i)) ids),
       tf_dynamic_rnn =
         (\<lambda>vs cell inputs lens tm g.
            Inr ((inputs, layer_states cell 0), get_variable_auto_reuse (vs @ ''/rnn/kernel:0'') g)),
       tf_bidirectional_dynamic_rnn =
         (\<lambda>vs fw bw inputs lens tm g.
            Inr (((inputs, inputs), (layer_states fw 0, layer_states bw 10)),
                 get_variable_auto_reuse (vs @ ''/bidirectional_rnn/kernel:0'') g)),
       tf_dense_tanh = (\<lambda>kernel bias units x. map (map (take units)) x),
       tf_softmax = (\<lambda>x. x),
       tf_tile_batch = (\<lambda>s n. s),
       tf_training_decode =
         (\<lambda>vs cell st inp lens tm g.
            Inr ((inp, map (map (\<lambda>_. 0)) inp, st),
                 get_variable_auto_reuse (vs @ ''/rnn/kernel:0'') g)),
       tf_output_projection =
         (\<lambda>vs layer x g.
            Inr (map (map (\<lambda>_. replicate (dense_units layer) 0)) x,
                 get_variable_auto_reuse (vs @ ''/'' @ dense_name layer @ ''/kernel:0'') g)),
       tf_beam_search_decode =
         (\<lambda>vs cell emb start end st width layer penalty iterations tm g. Inr (([], st), g)),
       tf_helper_decode =
         (\<lambda>vs cell h st layer iterations tm g. Inr (([], [], st), g)),
       tf_sparse_softmax_cross_entropy_with_logits = softmax_crossent,
       tf_losses_sparse_softmax_cross_entropy = mean_softmax_crossent,
       tf_apply_optimizer = (\<lambda>opt vars vals. vals) \<rparr>"

text \<open>
  A subclass of \<^verbatim>\<open>Model\<close> whose \<^verbatim>\<open>_build_encoder\<close> first assigns
  \<^verbatim>\<open>self.embedding_encoder = embedding\<close> and then calls \<^verbatim>\<open>Model\<close>'s: the
  instance is changed by \<open>f\<close> before \<^verbatim>\<open>Model._build_encoder\<close> runs. With the
  identity for \<open>f\<close> these are the methods of \<^verbatim>\<open>Model\<close> itself.
\<close>

definition Model_hooks_on :: "(BaseModel \<Rightarrow> tensor2 \<Rightarrow> BaseModel) \<Rightarrow> ext \<Rightarrow> hooks" where
  "Model_hooks_on f X =
     \<lparr> build_encoder = (\<lambda>self hp vs iterator embedding.
                          Model_build_encoder X (f self embedding) hp vs iterator embedding),
       build_decoder_cell = Model_build_decoder_cell X \<rparr>"

definition assign_embedding_encoder :: "BaseModel \<Rightarrow> tensor2 \<Rightarrow> BaseModel" where
  "assign_embedding_encoder self embedding = self\<lparr> self_embedding_encoder := Some embedding \<rparr>"

definition vocab_example :: "string \<Rightarrow> nat" where
  "vocab_example w = (if w = ''eos'' then 1 else 0)"

definition words_example :: "nat \<Rightarrow> string" where
  "words_example i = (if i = 1 then ''eos'' else ''a'')"

text \<open>
  The instance built from these: the subclass that assigns \<^verbatim>\<open>embedding_encoder\<close>,
  the batches \<open>batch_one\<close> (s2s, s2t) and \<open>batch_two\<close> (t2t, t2s), no scope, an empty
  graph. \<open>example_self\<close>, \<open>example_passes\<close>, \<open>example_graph\<close> and \<open>example_losses\<close>
  are the values the constructor's stages are proved to compute on it.
\<close>

definition Example_hooks :: hooks where
  "Example_hooks = Model_hooks_on assign_embedding_encoder ext_example"

definition example_construct :: "hparams \<Rightarrow> mode \<Rightarrow> error + (BaseModel \<times> graph)" where
  "example_construct hp md =
     BaseModel_init Example_hooks ext_example hp md batch_one batch_two batch_one batch_two
       vocab_example vocab_example (Some words_example) (Some words_example) None []"

definition example_self :: "mode \<Rightarrow> BaseModel" where
  "example_self md =
     \<lparr> self_iterator_s2s = batch_one, self_iterator_t2t = batch_two,
       self_iterator_s2t = batch_one, self_iterator_t2s = batch_two,
       self_mode = md, self_src_vocab_table = vocab_example,
       self_tgt_vocab_table = vocab_example, self_num_gpus = 1, self_time_major = False,
       self_num_encoder_layers = 4, self_num_decoder_layers = 2,
       self_num_encoder_residual_layers = 0, self_num_decoder_residual_layers = 0,
       self_embedding_src = [[0, 1/2], [0, 1/2]], self_embedding_tgt = [[0, 0], [0, 0]],
       self_batch_size = 1,
       self_output_layer_src = \<lparr> dense_units = 2, dense_name = ''output_projection_src'' \<rparr>,
       self_output_layer_tgt = \<lparr> dense_units = 2, dense_name = ''output_projection_tgt'' \<rparr>,
       self_train = None, self_eval_loss = None, self_infer = None,
       self_predict_count_s2s = None, self_predict_count_t2t = None,
       self_embedding_encoder = None, self_iterator_src = None, self_iterator_tgt = None \<rparr>"

text \<open>The attributes the constructor assigns on the instance when all four iterators
  are the batch \<open>it\<close>.\<close>

definition example_self_on :: "BatchedInput \<Rightarrow> BaseModel" where
  "example_self_on it =
     (example_self TRAIN)
       \<lparr> self_iterator_s2s := it, self_iterator_t2t := it, self_iterator_s2t := it,
         self_iterator_t2s := it, self_batch_size := length (source_sequence_length it) \<rparr>"

definition example_embeddings :: graph where
  "example_embeddings = [''embeddings/embedding_src:0'', ''embeddings/embedding_tgt:0'']"

definition example_graph :: graph where
  "example_graph =
     [''embeddings/embedding_src:0'', ''embeddings/embedding_tgt:0'',
      ''dynamic_seq2seq/auto/encoder/bidirectional_rnn/kernel:0'',
      ''dynamic_seq2seq/auto/discriminator/dense1_D/kernel:0'',
      ''dynamic_seq2seq/auto/discriminator/dense1_D/bias:0'',
      ''dynamic_seq2seq/auto/discriminator/dense2_D/kernel:0'',
      ''dynamic_seq2seq/auto/discriminator/dense2_D/bias:0'',
      ''dynamic_seq2seq/auto/discriminator/dense_last_D/kernel:0'',
      ''dynamic_seq2seq/auto/discriminator/dense_last_D/bias:0'',
      ''dynamic_seq2seq/auto/decoder/rnn/kernel:0'',
      ''dynamic_seq2seq/auto/decoder/output_projection_src/kernel:0'',
      ''dynamic_seq2seq/auto/decoder/output_projection_tgt/kernel:0'',
      ''dynamic_seq2seq/cross/encoder/bidirectional_rnn/kernel:0'',
      ''dynamic_seq2seq/cross/discriminator/dense1_D/kernel:0'',
      ''dynamic_seq2seq/cross/discriminator/dense1_D/bias:0'',
      ''dynamic_seq2seq/cross/discriminator/dense2_D/kernel:0'',
      ''dynamic_seq2seq/cross/discriminator/dense2_D/bias:0'',
      ''dynamic_seq2seq/cross/discriminator/dense_last_D/kernel:0'',
      ''dynamic_seq2seq/cross/discriminator/dense_last_D/bias:0'',
      ''dynamic_seq2seq/cross/decoder/rnn/kernel:0'',
      ''dynamic_seq2seq/cross/decoder/output_projection_tgt/kernel:0'',
      ''dynamic_seq2seq/cross/decoder/output_projection_src/kernel:0'']"

definition example_state :: rnn_state where
  "example_state = Tuple [Leaf [[0]], Leaf [[10]], Leaf [[1]], Leaf [[11]]]"

definition example_passes :: passes where
  "example_passes =
     \<lparr> encoder_outputs_s2s = [[[0, 1 / 2, 0, 1 / 2]]],
       encoder_outputs_t2t = [[[0, 0, 0, 0]], [[0, 0, 0, 0]]],
       encoder_outputs_s2t = [[[0, 1 / 2, 0, 1 / 2]]],
       encoder_outputs_t2s = [[[0, 0, 0, 0]], [[0, 0, 0, 0]]],
       discriminator_logits_s2s = [[[0, 1 / 2]]],
       discriminator_logits_t2t = [[[0, 0]], [[0, 0]]],
       discriminator_logits_s2t = [[[0, 1 / 2]]],
       discriminator_logits_t2s = [[[0, 0]], [[0, 0]]],
       logits_s2s = Logits [[[0, 0]]], sample_id_s2s = SampleId [[0]],
       final_context_state_s2s = example_state,
       logits_t2t = Logits [[[0, 0]], [[0, 0]]], sample_id_t2t = SampleId [[0], [0]],
       final_context_state_t2t = example_state,
       logits_s2t = Logits [[[0, 0]]], sample_id_s2t = SampleId [[0]],
       final_context_state_s2t = example_state,
       logits_t2s = Logits [[[0, 0]], [[0, 0]]], sample_id_t2s = SampleId [[0], [0]],
       final_context_state_t2s = example_state \<rparr>"

definition example_losses :: losses where
  "example_losses =
     \<lparr> loss_auto_s2s = ln 2, loss_auto_t2t = 2 * ln 2,
       loss_cross_s2t = ln 2, loss_cross_t2s = 2 * ln 2,
       loss_D_s2s = ln (1 + exp (1 / 2)), loss_D_s2t = ln (1 + exp (1 / 2)),
       loss_D_t2t = ln 2, loss_D_t2s = ln 2,
       loss_adv_s2s = ln (1 + exp (1 / 2)) - 1 / 2,
       loss_adv_s2t = ln (1 + exp (1 / 2)) - 1 / 2,
       loss_adv_t2t = ln 2, loss_adv_t2s = ln 2,
       loss_adv = 2 * ln (1 + exp (1 / 2)) + (2 * ln 2 - 1),
       loss_auto_total = 3 * ln 2, loss_cross_total = 3 * ln 2,
       loss_D_total = 2 * ln (1 + exp (1 / 2)) + 2 * ln 2,
       loss = 8 * ln 2 + 2 * ln (1 + exp (1 / 2)) \<rparr>"

section \<open>Properties\<close>

subsection \<open>Parameter partition\<close>

text \<open>
  Claim C4. For every constructed model, whatever variables its graph holds, the
  discriminator parameter set (names matching the discriminator scope pattern) and the
  autoencoder parameter set partition the trainable variables: their union is the whole
  set, their intersection is empty, and the sizes add up.
\<close>

theorem params_partition:
  "set (params_D g) \<union> set (params_ae g) = set (trainable_variables g None)
   \<and> set (params_D g) \<inter> set (params_ae g) = {}
   \<and> card (set (params_ae g)) + card (set (params_D g)) = card (set (trainable_variables g None))"
proof -
  let ?D = "set (params_D g)" and ?A = "set (params_ae g)"
  have sub: "?D \<subseteq> set g"
    by (auto simp: params_D_def trainable_variables_def)
  have A: "?A = set g - ?D"
    by (auto simp: params_ae_def trainable_variables_def)
  have un: "?D \<union> ?A = set g" and int: "?D \<inter> ?A = {}"
    using sub A by auto
  have "card (?D \<union> ?A) = card ?D + card ?A"
    by (rule card_Un_disjoint) (use int in auto)
  with un int show ?thesis
    by (simp add: trainable_variables_def add.commute)
qed

subsection \<open>Building blocks\<close>

lemma then_build_Inr_iff:
  "then_build m f g = Inr r \<longleftrightarrow> (\<exists>x g'. m g = Inr (x, g') \<and> f x g' = Inr r)"
  by (auto simp: then_build_def split: sum.splits)

lemma then_build_Inl: "m g = Inl e \<Longrightarrow> then_build m f g = Inl e"
  by (simp add: then_build_def)

lemma then_build_fails:
  assumes "\<And>x g'. m g = Inr (x, g') \<Longrightarrow> \<exists>e. f x g' = Inl e"
  shows "\<exists>e. then_build m f g = Inl e"
  using assms by (cases "m g") (auto simp: then_build_def)

lemma then_build_cong_weak:
  assumes "\<And>x g'. m g = Inr (x, g') \<Longrightarrow> f x g' = f' x g'"
  shows "then_build m f g = then_build m f' g"
  using assms by (cases "m g") (auto simp: then_build_def)

lemma lift_Inr_iff: "lift r g = Inr (x, g') \<longleftrightarrow> r = Inr x \<and> g' = g"
  by (auto simp: lift_def split: sum.splits)

lemma ret_Inr_iff: "ret x g = Inr (y, g') \<longleftrightarrow> y = x \<and> g' = g"
  by (auto simp: ret_def)

lemmas monad_defs = then_build_def ret_def raise_def lift_def

text \<open>The stages of the constructor, and what each leaves of the instance.\<close>

lemma init_attributes_fields:
  assumes "init_attributes X hp md i1 i2 i3 i4 sv tv scope g = Inr (self, g0)"
  shows "self_mode self = md" "self_iterator_s2s self = i1" "self_iterator_t2t self = i2"
    "self_iterator_s2t self = i3" "self_iterator_t2s self = i4"
    "self_batch_size self = length (source_sequence_length i1)"
    "self_time_major self = time_major hp"
    "self_train self = None" "self_infer self = None" "self_eval_loss self = None"
    "self_embedding_encoder self = None" "self_iterator_src self = None"
    "self_iterator_tgt self = None"
  using assms
  by (auto simp: init_attributes_def then_build_Inr_iff ret_Inr_iff raise_def split: if_splits)

lemma init_results_fields:
  assumes "init_results self rs rt a b c d l = Inr self'"
  shows "self_mode self' = self_mode self" "self_iterator_src self' = self_iterator_src self"
    "self_iterator_tgt self' = self_iterator_tgt self" "self_train self' = self_train self"
    "self_iterator_s2s self' = self_iterator_s2s self"
    "self_batch_size self' = self_batch_size self"
  using assms
  by (auto simp: init_results_def Let_def split: if_splits sum.splits)

lemma init_results_EVAL:
  assumes "init_results self rs rt a b c d l = Inr self'" "self_mode self = EVAL"
  shows "self_eval_loss self' = l"
  using assms
  by (auto simp: init_results_def Let_def split: if_splits sum.splits)

lemma init_training_fields:
  assumes "init_training hp self l_ae l_D g = Inr m"
  shows "self_mode m = self_mode self" "self_iterator_src m = self_iterator_src self"
    "self_iterator_tgt m = self_iterator_tgt self"
    "self_iterator_s2s m = self_iterator_s2s self"
    "self_batch_size m = self_batch_size self"
    "self_eval_loss m = self_eval_loss self"
  using assms
  by (auto simp: init_training_def split: if_splits sum.splits)

lemma init_training_TRAIN:
  assumes "init_training hp self l_ae l_D g = Inr m" "self_mode self = TRAIN"
  shows "\<exists>t. self_train m = Some t \<and> train_loss_ae t = l_ae \<and> train_loss_D t = l_D
           \<and> upd_global_step (update_ae t) \<and> upd_global_step (update_D t)
           \<and> upd_train_vars (update_ae t) = params_ae g
           \<and> upd_train_vars (update_D t) = params_D g"
  using assms
  by (auto simp: init_training_def train_params_def split: if_splits sum.splits)

lemma BaseModel_init_stages:
  assumes "BaseModel_init H X hp md i1 i2 i3 i4 sv tv rs rt scope g = Inr (m, g')"
  shows "\<exists>self g0 a b c d l_ae l_D self'.
           init_attributes X hp md i1 i2 i3 i4 sv tv scope g = Inr (self, g0)
         \<and> build_graph H X self hp scope g0 = Inr ((a, b, c, d, l_ae, l_D), g')
         \<and> init_results self rs rt a b c d l_ae = Inr self'
         \<and> init_training hp self' l_ae l_D g' = Inr m"
  using assms
  by (auto simp: BaseModel_init_def then_build_Inr_iff lift_Inr_iff split: prod.splits)

lemma BaseModel_init_mode:
  assumes "BaseModel_init H X hp md i1 i2 i3 i4 sv tv rs rt scope g = Inr (m, g')"
  shows "self_mode m = md \<and> self_iterator_src m = None \<and> self_iterator_tgt m = None"
proof -
  from BaseModel_init_stages[OF assms] obtain self g0 a b c d l_ae l_D self' where
    A: "init_attributes X hp md i1 i2 i3 i4 sv tv scope g = Inr (self, g0)"
    and R: "init_results self rs rt a b c d l_ae = Inr self'"
    and T: "init_training hp self' l_ae l_D g' = Inr m"
    by blast
  show ?thesis
    using init_attributes_fields[OF A] init_results_fields[OF R] init_training_fields[OF T]
    by simp
qed

text \<open>The constructor binds \<^verbatim>\<open>train_loss_ae\<close> and \<^verbatim>\<open>train_loss_D\<close> (in EVAL mode
  \<^verbatim>\<open>eval_loss\<close>) to the fifth and sixth result of \<^verbatim>\<open>build_graph\<close>, and builds both
  updates with the global step.\<close>

lemma BaseModel_init_TRAIN:
  assumes "BaseModel_init H X hp TRAIN i1 i2 i3 i4 sv tv rs rt scope g = Inr (m, g')"
  shows "\<exists>self g0 a b c d l_ae l_D t.
           init_attributes X hp TRAIN i1 i2 i3 i4 sv tv scope g = Inr (self, g0)
         \<and> build_graph H X self hp scope g0 = Inr ((a, b, c, d, l_ae, l_D), g')
         \<and> self_mode m = TRAIN \<and> self_train m = Some t
         \<and> train_loss_ae t = l_ae \<and> train_loss_D t = l_D
         \<and> upd_global_step (update_ae t) \<and> upd_global_step (update_D t)
         \<and> upd_train_vars (update_ae t) = params_ae g'
         \<and> upd_train_vars (update_D t) = params_D g'"
proof -
  from BaseModel_init_stages[OF assms] obtain self g0 a b c d l_ae l_D self' where
    A: "init_attributes X hp TRAIN i1 i2 i3 i4 sv tv scope g = Inr (self, g0)"
    and G: "build_graph H X self hp scope g0 = Inr ((a, b, c, d, l_ae, l_D), g')"
    and R: "init_results self rs rt a b c d l_ae = Inr self'"
    and T: "init_training hp self' l_ae l_D g' = Inr m"
    by blast
  have M: "self_mode self' = TRAIN"
    using init_attributes_fields(1)[OF A] init_results_fields(1)[OF R] by simp
  from init_training_TRAIN[OF T M] obtain t where
    t: "self_train m = Some t" "train_loss_ae t = l_ae" "train_loss_D t = l_D"
    "upd_global_step (update_ae t)" "upd_global_step (update_D t)"
    "upd_train_vars (update_ae t) = params_ae g'" "upd_train_vars (update_D t) = params_D g'"
    by blast
  have "self_mode m = TRAIN"
    using init_training_fields(1)[OF T] M by simp
  with A G t show ?thesis by blast
qed

lemma BaseModel_init_EVAL:
  assumes "BaseModel_init H X hp EVAL i1 i2 i3 i4 sv tv rs rt scope g = Inr (m, g')"
  shows "\<exists>self g0 a b c d l_ae l_D.
           init_attributes X hp EVAL i1 i2 i3 i4 sv tv scope g = Inr (self, g0)
         \<and> build_graph H X self hp scope g0 = Inr ((a, b, c, d, l_ae, l_D), g')
         \<and> self_eval_loss m = l_ae"
proof -
  from BaseModel_init_stages[OF assms] obtain self g0 a b c d l_ae l_D self' where
    A: "init_attributes X hp EVAL i1 i2 i3 i4 sv tv scope g = Inr (self, g0)"
    and G: "build_graph H X self hp scope g0 = Inr ((a, b, c, d, l_ae, l_D), g')"
    and R: "init_results self rs rt a b c d l_ae = Inr self'"
    and T: "init_training hp self' l_ae l_D g' = Inr m"
    by blast
  have "self_eval_loss m = l_ae"
    using init_results_EVAL[OF R] init_attributes_fields(1)[OF A] init_training_fields(6)[OF T]
    by simp
  with A G show ?thesis by blast
qed

subsection \<open>The instance, evaluated\<close>

lemma hparams_example_fields:
  "warmup_scheme hparams_example = ''t2t''" "warmup_steps hparams_example = 100"
  "decay_scheme hparams_example = ''luong5''" "num_train_steps hparams_example = 1000"
  "learning_rate hparams_example = 1" "optimizer hparams_example = ''sgd''"
  "encoder_type hparams_example = ''bi''" "num_encoder_layers hparams_example = 4"
  "attention hparams_example = False" "time_major hparams_example = False"
  by (simp_all add: hparams_example_def)

lemma example_self_fields:
  "self_mode (example_self md) = md" "self_batch_size (example_self md) = 1"
  "self_time_major (example_self md) = False"
  "self_iterator_s2s (example_self md) = batch_one"
  "self_iterator_t2t (example_self md) = batch_two"
  "self_embedding_encoder (example_self md) = None"
  by (simp_all add: example_self_def)

lemma example_attributes:
  "init_attributes ext_example hparams_example md batch_one batch_two batch_one batch_two
     vocab_example vocab_example None []
   = Inr (example_self md, example_embeddings)"
  by (simp add: init_attributes_def monad_defs ext_example_def hparams_example_def
      example_self_def example_embeddings_def batch_one_def)

lemma example_attributes_on:
  "init_attributes ext_example hparams_example TRAIN it it it it vocab_example vocab_example
     None []
   = Inr (example_self_on it, example_embeddings)"
  by (simp add: init_attributes_def monad_defs ext_example_def hparams_example_def
      example_self_on_def example_self_def example_embeddings_def)

lemmas example_eval_defs =
  Model_build_encoder_def assign_embedding_encoder_def example_self_def hparams_example_def
  ext_example_def monad_defs build_bidirectional_rnn_def build_encoder_cell_def py_int_div_def
  signed_divide_int_def py_range_def layer_states_def concat_last_def batch_one_def
  batch_two_def variable_scope_def Example_hooks_def Model_hooks_on_def
  Model_build_decoder_cell_def build_decoder_def build_discriminator_def layers_dense_tanh_def
  dense_kernel_def dense_bias_def auto_scope_def cross_scope_def py_or_def
  get_variable_auto_reuse_def get_infer_maximum_iterations_def reduce_max_def
  vocab_example_def example_embeddings_def

lemma example_passes_eq:
  assumes "md \<noteq> INFER"
  shows "build_graph_passes Example_hooks ext_example (example_self md) hparams_example None
           example_embeddings
         = Inr (example_passes, example_graph)"
  using assms
  by (simp add: build_graph_passes_def example_eval_defs eval_nat_numeral Let_def
      example_passes_def example_graph_def example_state_def)

lemma example_passes_scoped:
  "\<exists>p g. build_graph_passes Example_hooks ext_example (example_self TRAIN) hparams_example
            (Some ''nmt'') example_embeddings = Inr (p, g)"
  by (simp add: build_graph_passes_def example_eval_defs eval_nat_numeral Let_def)

lemma example_losses_eq:
  "build_graph_losses ext_example (example_self md) example_passes = Inr example_losses"
  by (simp add: build_graph_losses_def compute_loss_def masked_crossent_sum_def
      get_max_time_def sequence_mask_def reduce_sum_def compute_discriminator_loss_def
      zeros_like_def ones_like_def one_minus_def add_n_def softmax_crossent_def
      mean_softmax_crossent_def example_passes_def example_losses_def example_self_def
      ext_example_def batch_one_def batch_two_def upt_rec Let_def)

lemma example_build_graph:
  assumes "md \<noteq> INFER"
  shows "build_graph Example_hooks ext_example (example_self md) hparams_example None
           example_embeddings
         = Inr (((Logits [[[0, 0]]], example_state, SampleId [[0]]),
                 (Logits [[[0, 0]], [[0, 0]]], example_state, SampleId [[0], [0]]),
                 (Logits [[[0, 0]]], example_state, SampleId [[0]]),
                 (Logits [[[0, 0]], [[0, 0]]], example_state, SampleId [[0], [0]]),
                 Some (loss example_losses), Some (loss_adv example_losses)),
                example_graph)"
  using assms
  by (simp add: build_graph_def monad_defs example_passes_eq example_losses_eq
      example_self_fields)
    (simp add: example_passes_def)

lemma example_learning_rate: "\<exists>lr. build_learning_rate hparams_example = Inr lr"
  by (simp add: build_learning_rate_def get_learning_rate_warmup_def
      get_learning_rate_decay_def learning_rate_decay_params_def hparams_example_fields)

lemma example_construct_TRAIN:
  "\<exists>m. example_construct hparams_example TRAIN = Inr (m, example_graph)"
proof -
  obtain lr where lr: "build_learning_rate hparams_example = Inr lr"
    using example_learning_rate by blast
  have G: "build_graph Example_hooks ext_example (example_self TRAIN) hparams_example None
             example_embeddings
           = Inr (((Logits [[[0, 0]]], example_state, SampleId [[0]]),
                   (Logits [[[0, 0]], [[0, 0]]], example_state, SampleId [[0], [0]]),
                   (Logits [[[0, 0]]], example_state, SampleId [[0]]),
                   (Logits [[[0, 0]], [[0, 0]]], example_state, SampleId [[0], [0]]),
                   Some (loss example_losses), Some (loss_adv example_losses)),
                  example_graph)"
    by (rule example_build_graph) simp
  show ?thesis
    by (simp add: example_construct_def BaseModel_init_def monad_defs example_attributes G
        init_results_def init_training_def train_params_def lr example_self_fields
        hparams_example_fields Let_def)
qed

lemma example_construct_EVAL:
  "\<exists>m. example_construct hparams_example EVAL = Inr (m, example_graph)"
proof -
  have G: "build_graph Example_hooks ext_example (example_self EVAL) hparams_example None
             example_embeddings
           = Inr (((Logits [[[0, 0]]], example_state, SampleId [[0]]),
                   (Logits [[[0, 0]], [[0, 0]]], example_state, SampleId [[0], [0]]),
                   (Logits [[[0, 0]]], example_state, SampleId [[0]]),
                   (Logits [[[0, 0]], [[0, 0]]], example_state, SampleId [[0], [0]]),
                   Some (loss example_losses), Some (loss_adv example_losses)),
                  example_graph)"
    by (rule example_build_graph) simp
  show ?thesis
    by (simp add: example_construct_def BaseModel_init_def monad_defs example_attributes G
        init_results_def init_training_def example_self_fields Let_def)
qed

lemma reverse_lookup_Some: "\<exists>w. reverse_lookup (Some t) ids = Inr w"
  by (cases ids) (simp_all add: reverse_lookup_def)

lemma init_results_INFER:
  assumes "self_mode self = INFER"
  shows "\<exists>self'. init_results self (Some ws) (Some wt) a b c d l = Inr self'"
proof -
  obtain w1 w2 w3 w4 where
    "reverse_lookup (Some ws) (snd (snd a)) = Inr w1"
    "reverse_lookup (Some wt) (snd (snd b)) = Inr w2"
    "reverse_lookup (Some ws) (snd (snd d)) = Inr w3"
    "reverse_lookup (Some wt) (snd (snd c)) = Inr w4"
    using reverse_lookup_Some by metis
  then show ?thesis
    using assms by (simp add: init_results_def Let_def)
qed

lemma example_passes_INFER:
  "\<exists>p g. build_graph_passes Example_hooks ext_example (example_self INFER) hparams_example
            None example_embeddings = Inr (p, g)"
  by (simp add: build_graph_passes_def example_eval_defs eval_nat_numeral Let_def)

lemma example_construct_INFER:
  "\<exists>m g. example_construct hparams_example INFER = Inr (m, g)"
proof -
  obtain p g where P: "build_graph_passes Example_hooks ext_example (example_self INFER)
      hparams_example None example_embeddings = Inr (p, g)"
    using example_passes_INFER by blast
  obtain self' where R: "init_results (example_self INFER) (Some words_example)
      (Some words_example) (logits_s2s p, final_context_state_s2s p, sample_id_s2s p)
      (logits_t2t p, final_context_state_t2t p, sample_id_t2t p)
      (logits_s2t p, final_context_state_s2t p, sample_id_s2t p)
      (logits_t2s p, final_context_state_t2s p, sample_id_t2s p) None = Inr self'"
    using init_results_INFER[OF example_self_fields(1)[of INFER]] by blast
  have M: "self_mode self' = INFER"
    using init_results_fields(1)[OF R] by (simp add: example_self_fields)
  show ?thesis
    by (simp add: example_construct_def BaseModel_init_def monad_defs example_attributes
        build_graph_def P R M example_self_fields init_training_def)
qed

subsection \<open>The learning-rate schedule\<close>

text \<open>
  Claim C6. With the warmup scheme \<^verbatim>\<open>t2t\<close> and \<^verbatim>\<open>warmup_steps = 100\<close>, and a
  decay that starts after step 100, the rate at step 0 is \<open>base_rate * 0.01\<close> and the
  rate at step 100 is \<open>base_rate\<close>. With \<^verbatim>\<open>decay_scheme = "luong5"\<close> and
  \<^verbatim>\<open>num_train_steps = 1000\<close> the decay starts at step 500 with factor 0.5 and
  \<open>decay_steps = (num_train_steps - start_decay_step) / 5 = 100\<close>; the rate at step 500
  is \<open>base_rate\<close> and the rate at step \<open>500 + decay_steps\<close> is \<open>base_rate * 0.5\<close>. (In
  the reals the equalities are exact; in float32 they hold up to rounding.)
\<close>

theorem learning_rate_schedule_t2t:
  assumes "warmup_scheme hp = ''t2t''" and "warmup_steps hp = 100"
    and "learning_rate_decay_params hp = Inr (start_decay_step, decay_steps, decay_factor)"
    and "100 < start_decay_step"
  shows "learning_rate_at hp 0 = Inr (Some (learning_rate hp * 0.01))
       \<and> learning_rate_at hp 100 = Inr (Some (learning_rate hp))
       \<and> (decay_scheme hp = ''luong5'' \<and> num_train_steps hp = 1000 \<longrightarrow>
            start_decay_step = 500 \<and> decay_factor = 0.5
          \<and> decay_steps = (num_train_steps hp - start_decay_step) div 5 \<and> decay_steps = 100
          \<and> learning_rate_at hp 500 = Inr (Some (learning_rate hp))
          \<and> learning_rate_at hp (500 + decay_steps) = Inr (Some (learning_rate hp * 0.5)))"
proof -
  have warm: "learning_rate_at hp 0 = Inr (Some (learning_rate hp * 0.01))
       \<and> learning_rate_at hp 100 = Inr (Some (learning_rate hp))"
    using assms
    by (simp add: learning_rate_at_def build_learning_rate_def get_learning_rate_warmup_def
        get_learning_rate_decay_def inv_decay_def powr_def)
  have decay: "start_decay_step = 500 \<and> decay_factor = 0.5
          \<and> decay_steps = (num_train_steps hp - start_decay_step) div 5 \<and> decay_steps = 100
          \<and> learning_rate_at hp 500 = Inr (Some (learning_rate hp))
          \<and> learning_rate_at hp (500 + decay_steps) = Inr (Some (learning_rate hp * 0.5))"
    if "decay_scheme hp = ''luong5''" "num_train_steps hp = 1000"
  proof -
    have "learning_rate_decay_params hp = Inr (500, 100, 0.5)"
      using that
      by (simp add: learning_rate_decay_params_def py_int_div_def signed_divide_int_def)
    with assms(3) have p: "start_decay_step = 500" "decay_steps = 100" "decay_factor = 0.5"
      by simp_all
    show ?thesis
      using assms(1,2,3) that p
      by (simp add: learning_rate_at_def build_learning_rate_def get_learning_rate_warmup_def
          get_learning_rate_decay_def exponential_decay_def)
  qed
  from warm decay show ?thesis by blast
qed

theorem learning_rate_schedule_t2t_witness:
  "warmup_scheme hparams_example = ''t2t'' \<and> warmup_steps hparams_example = 100
   \<and> decay_scheme hparams_example = ''luong5'' \<and> num_train_steps hparams_example = 1000
   \<and> learning_rate_decay_params hparams_example = Inr (500, 100, 0.5)
   \<and> learning_rate_at hparams_example 0 = Inr (Some (1 * 0.01))
   \<and> learning_rate_at hparams_example 100 = Inr (Some 1)
   \<and> learning_rate_at hparams_example 500 = Inr (Some 1)
   \<and> learning_rate_at hparams_example (500 + 100) = Inr (Some (1 * 0.5))"
proof -
  have p: "learning_rate_decay_params hparams_example = Inr (500, 100, 0.5)"
    by (simp add: learning_rate_decay_params_def py_int_div_def signed_divide_int_def
        hparams_example_fields)
  have s: "(100::int) < 500" by simp
  show ?thesis
    using learning_rate_schedule_t2t[OF hparams_example_fields(1,2) p s] p
    by (simp add: hparams_example_fields)
qed

subsection \<open>The two training objectives\<close>

lemma build_graph_losses_fields:
  assumes "build_graph_losses X self p = Inr l"
  shows "compute_loss X self (logits_s2s p) (self_iterator_s2s self) = Inr (loss_auto_s2s l)"
    "compute_loss X self (logits_t2t p) (self_iterator_t2t self) = Inr (loss_auto_t2t l)"
    "compute_loss X self (logits_s2t p) (self_iterator_s2t self) = Inr (loss_cross_s2t l)"
    "compute_loss X self (logits_t2s p) (self_iterator_t2s self) = Inr (loss_cross_t2s l)"
    "loss_D_s2s l = compute_discriminator_loss X (discriminator_logits_s2s p)
                      (zeros_like (source (self_iterator_s2s self)))"
    "loss_D_s2t l = compute_discriminator_loss X (discriminator_logits_s2t p)
                      (zeros_like (source (self_iterator_s2t self)))"
    "loss_D_t2t l = compute_discriminator_loss X (discriminator_logits_t2t p)
                      (ones_like (source (self_iterator_t2t self)))"
    "loss_D_t2s l = compute_discriminator_loss X (discriminator_logits_t2s p)
                      (ones_like (source (self_iterator_t2s self)))"
    "loss_adv_s2s l = compute_discriminator_loss X (discriminator_logits_s2s p)
                        (one_minus (zeros_like (source (self_iterator_s2s self))))"
    "loss_adv_s2t l = compute_discriminator_loss X (discriminator_logits_s2t p)
                        (one_minus (zeros_like (source (self_iterator_s2t self))))"
    "loss_adv_t2t l = compute_discriminator_loss X (discriminator_logits_t2t p)
                        (one_minus (ones_like (source (self_iterator_t2t self))))"
    "loss_adv_t2s l = compute_discriminator_loss X (discriminator_logits_t2s p)
                        (one_minus (ones_like (source (self_iterator_t2s self))))"
    "loss l = (loss_auto_s2s l + loss_auto_t2t l)
              + (loss_D_s2s l + loss_D_s2t l + loss_D_t2t l + loss_D_t2s l)
              + (loss_cross_s2t l + loss_cross_t2s l)"
    "loss_adv l = loss_adv_s2s l + loss_adv_s2t l + loss_adv_t2t l + loss_adv_t2s l"
  using assms
  by (auto simp: build_graph_losses_def Let_def add_n_def split: sum.splits)

lemma build_graph_Inr:
  assumes "build_graph H X self hp scope g = Inr ((a, b, c, d, l_ae, l_D), g')"
      and "self_mode self \<noteq> INFER"
  shows "\<exists>p l. build_graph_passes H X self hp scope g = Inr (p, g')
             \<and> build_graph_losses X self p = Inr l
             \<and> l_ae = Some (loss l) \<and> l_D = Some (loss_adv l)"
  using assms
  by (auto simp: build_graph_def then_build_Inr_iff ret_Inr_iff lift_Inr_iff)

text \<open>
  Claim C1, as the code has it. In TRAIN and EVAL mode the two objectives that
  \<^verbatim>\<open>build_graph\<close> returns (which the constructor names \<^verbatim>\<open>train_loss_ae\<close> and
  \<^verbatim>\<open>train_loss_D\<close>) are: first, the sum of the two same-language reconstruction losses,
  the four plain discriminator losses (labels 0 for the passes s2s and s2t, 1 for t2t and
  t2s) and the two cross reconstruction losses; second, the sum of the four adversarial
  losses (the same logits against the flipped labels).
\<close>

theorem training_objectives:
  assumes "build_graph H X self hp scope g = Inr ((a, b, c, d, l_ae, l_D), g')"
      and "self_mode self \<noteq> INFER"
  shows "\<exists>p l. build_graph_passes H X self hp scope g = Inr (p, g')
      \<and> build_graph_losses X self p = Inr l
      \<and> compute_loss X self (logits_s2s p) (self_iterator_s2s self) = Inr (loss_auto_s2s l)
      \<and> compute_loss X self (logits_t2t p) (self_iterator_t2t self) = Inr (loss_auto_t2t l)
      \<and> compute_loss X self (logits_s2t p) (self_iterator_s2t self) = Inr (loss_cross_s2t l)
      \<and> compute_loss X self (logits_t2s p) (self_iterator_t2s self) = Inr (loss_cross_t2s l)
      \<and> loss_D_s2s l = compute_discriminator_loss X (discriminator_logits_s2s p)
                          (zeros_like (source (self_iterator_s2s self)))
      \<and> loss_D_s2t l = compute_discriminator_loss X (discriminator_logits_s2t p)
                          (zeros_like (source (self_iterator_s2t self)))
      \<and> loss_D_t2t l = compute_discriminator_loss X (discriminator_logits_t2t p)
                          (ones_like (source (self_iterator_t2t self)))
      \<and> loss_D_t2s l = compute_discriminator_loss X (discriminator_logits_t2s p)
                          (ones_like (source (self_iterator_t2s self)))
      \<and> loss_adv_s2s l = compute_discriminator_loss X (discriminator_logits_s2s p)
                            (one_minus (zeros_like (source (self_iterator_s2s self))))
      \<and> loss_adv_s2t l = compute_discriminator_loss X (discriminator_logits_s2t p)
                            (one_minus (zeros_like (source (self_iterator_s2t self))))
      \<and> loss_adv_t2t l = compute_discriminator_loss X (discriminator_logits_t2t p)
                            (one_minus (ones_like (source (self_iterator_t2t self))))
      \<and> loss_adv_t2s l = compute_discriminator_loss X (discriminator_logits_t2s p)
                            (one_minus (ones_like (source (self_iterator_t2s self))))
      \<and> l_ae = Some ((loss_auto_s2s l + loss_auto_t2t l)
                     + (loss_D_s2s l + loss_D_s2t l + loss_D_t2t l + loss_D_t2s l)
                     + (loss_cross_s2t l + loss_cross_t2s l))
      \<and> l_D = Some (loss_adv_s2s l + loss_adv_s2t l + loss_adv_t2t l + loss_adv_t2s l)"
proof -
  from build_graph_Inr[OF assms] obtain p l where
    P: "build_graph_passes H X self hp scope g = Inr (p, g')"
    and L: "build_graph_losses X self p = Inr l"
    and E: "l_ae = Some (loss l)" "l_D = Some (loss_adv l)"
    by blast
  show ?thesis
    using P L E build_graph_losses_fields[OF L]
    by (intro exI[of _ p] exI[of _ l]) simp
qed

theorem training_objectives_witness:
  "self_mode (example_self TRAIN) \<noteq> INFER
   \<and> (\<exists>p l. build_graph_passes Example_hooks ext_example (example_self TRAIN) hparams_example
              None example_embeddings = Inr (p, example_graph)
         \<and> build_graph_losses ext_example (example_self TRAIN) p = Inr l
         \<and> Some (loss example_losses)
             = Some ((loss_auto_s2s l + loss_auto_t2t l)
                     + (loss_D_s2s l + loss_D_s2t l + loss_D_t2t l + loss_D_t2s l)
                     + (loss_cross_s2t l + loss_cross_t2s l))
         \<and> Some (loss_adv example_losses)
             = Some (loss_adv_s2s l + loss_adv_s2t l + loss_adv_t2t l + loss_adv_t2s l))"
proof -
  have M: "self_mode (example_self TRAIN) \<noteq> INFER"
    by (simp add: example_self_fields)
  have G: "build_graph Example_hooks ext_example (example_self TRAIN) hparams_example None
             example_embeddings
           = Inr (((Logits [[[0, 0]]], example_state, SampleId [[0]]),
                   (Logits [[[0, 0]], [[0, 0]]], example_state, SampleId [[0], [0]]),
                   (Logits [[[0, 0]]], example_state, SampleId [[0]]),
                   (Logits [[[0, 0]], [[0, 0]]], example_state, SampleId [[0], [0]]),
                   Some (loss example_losses), Some (loss_adv example_losses)),
                  example_graph)"
    by (rule example_build_graph) simp
  from training_objectives[OF G M] M show ?thesis by blast
qed

text \<open>On the instance the claimed sums differ from the objectives: the first objective is
  not the reconstruction losses plus the adversarial losses, and the second is not the
  sum of the plain discriminator losses.\<close>

theorem training_objectives_counterexample:
  "build_graph_passes Example_hooks ext_example (example_self TRAIN) hparams_example None
     example_embeddings = Inr (example_passes, example_graph)
   \<and> build_graph_losses ext_example (example_self TRAIN) example_passes = Inr example_losses
   \<and> map_sum id (\<lambda>(r, g). snd (snd (snd (snd r))))
        (build_graph Example_hooks ext_example (example_self TRAIN) hparams_example None
           example_embeddings)
       = Inr (Some (loss example_losses), Some (loss_adv example_losses))
   \<and> loss example_losses
       \<noteq> (loss_auto_s2s example_losses + loss_auto_t2t example_losses)
          + (loss_adv_s2s example_losses + loss_adv_s2t example_losses
             + loss_adv_t2t example_losses + loss_adv_t2s example_losses)
   \<and> loss_adv example_losses
       \<noteq> loss_D_s2s example_losses + loss_D_s2t example_losses
          + loss_D_t2t example_losses + loss_D_t2s example_losses"
proof -
  have "0 < ln (2::real)" by simp
  then have pos: "3 * ln (2::real) \<noteq> - 1" by linarith
  have M: "TRAIN \<noteq> INFER" by simp
  have ne: "loss example_losses
       \<noteq> (loss_auto_s2s example_losses + loss_auto_t2t example_losses)
          + (loss_adv_s2s example_losses + loss_adv_s2t example_losses
             + loss_adv_t2t example_losses + loss_adv_t2s example_losses)"
    using pos by (simp add: example_losses_def)
  have ne': "loss_adv example_losses
       \<noteq> loss_D_s2s example_losses + loss_D_s2t example_losses
          + loss_D_t2t example_losses + loss_D_t2s example_losses"
    by (simp add: example_losses_def)
  show ?thesis
    using ne ne'
    by (simp add: example_passes_eq[OF M] example_losses_eq example_build_graph[OF M])
qed

subsection \<open>The global step\<close>

lemma train_steps:
  assumes "BaseModel_init H X hp TRAIN i1 i2 i3 i4 sv tv rs rt scope g = Inr (m, g')"
  shows "\<exists>t. self_train m = Some t
           \<and> global_step (run_update X (update_ae t) sess) = global_step sess + 1
           \<and> global_step (run_update X (update_D t) sess) = global_step sess + 1
           \<and> train X m sess = Inr (run_update X (update_D t) (run_update X (update_ae t) sess))
           \<and> map_sum id global_step (train X m sess) = Inr (global_step sess + 2)"
proof -
  from BaseModel_init_TRAIN[OF assms] obtain t where
    "self_mode m = TRAIN" "self_train m = Some t"
    "upd_global_step (update_ae t)" "upd_global_step (update_D t)"
    by blast
  then show ?thesis
    by (auto simp: train_def run_update_def)
qed

text \<open>
  Claim C2, as the code has it. For every model constructed in TRAIN mode, both update
  operations are built with the shared global step, each run of one of them increments
  the step by 1, and one call of \<^verbatim>\<open>train\<close>, which runs \<^verbatim>\<open>update_ae\<close> and then
  \<^verbatim>\<open>update_D\<close>, increments it by exactly 2 (in int32 arithmetic).
\<close>

theorem train_increments_global_step_twice:
  assumes "BaseModel_init H X hp TRAIN i1 i2 i3 i4 sv tv rs rt scope g = Inr (m, g')"
  shows "\<exists>t. self_train m = Some t
           \<and> global_step (run_update X (update_ae t) sess) = global_step sess + 1
           \<and> global_step (run_update X (update_D t) sess) = global_step sess + 1
           \<and> train X m sess = Inr (run_update X (update_D t) (run_update X (update_ae t) sess))
           \<and> map_sum id global_step (train X m sess) = Inr (global_step sess + 2)"
  by (rule train_steps[OF assms])

theorem train_increments_global_step_twice_witness:
  "\<exists>m t. example_construct hparams_example TRAIN = Inr (m, example_graph)
      \<and> self_train m = Some t
      \<and> global_step (run_update ext_example (update_D t) (initial_session (\<lambda>v. []))) = 0 + 1
      \<and> map_sum id global_step (train ext_example m (initial_session (\<lambda>v. []))) = Inr (0 + 2)"
proof -
  obtain m where m: "example_construct hparams_example TRAIN = Inr (m, example_graph)"
    using example_construct_TRAIN by blast
  from train_increments_global_step_twice[OF m[unfolded example_construct_def],
      of "initial_session (\<lambda>v. [])"] m
  show ?thesis
    by (auto simp: initial_session_def)
qed

text \<open>After one call of \<^verbatim>\<open>train\<close> on the instance, started at step 0, the global step
  is 2, not 1.\<close>

theorem train_global_step_counterexample:
  "map_sum id (\<lambda>(m, g). map_sum id global_step (train ext_example m (initial_session (\<lambda>v. []))))
     (example_construct hparams_example TRAIN) = Inr (Inr 2)
   \<and> (2 :: 32 word) \<noteq> 0 + 1"
proof -
  obtain m where m: "example_construct hparams_example TRAIN = Inr (m, example_graph)"
    using example_construct_TRAIN by blast
  from train_steps[OF m[unfolded example_construct_def], of "initial_session (\<lambda>v. [])"] m
  show ?thesis
    by (auto simp: initial_session_def)
qed

subsection \<open>\<^verbatim>\<open>infer_and_source\<close>\<close>

text \<open>
  Claim C10, as the code has it. Every call of \<^verbatim>\<open>infer_and_source\<close> on a constructed
  model fails: on a model in INFER mode with an \<^verbatim>\<open>AttributeError\<close>, since it reads
  \<^verbatim>\<open>self.iterator_src\<close>, which the constructor never assigns; on a model in TRAIN or
  EVAL mode with the \<^verbatim>\<open>AssertionError\<close> of the assertion on the mode, which comes
  first.
\<close>

theorem infer_and_source_fails:
  assumes "BaseModel_init H X hp md i1 i2 i3 i4 sv tv rs rt scope g = Inr (m, g')"
  shows "infer_and_source m sess =
           Inl (if md = INFER then AttributeError ''iterator_src'' else AssertionError)"
  using BaseModel_init_mode[OF assms]
  by (simp add: infer_and_source_def)

theorem infer_and_source_fails_witness:
  "\<exists>m g. example_construct hparams_example INFER = Inr (m, g)
      \<and> infer_and_source m (initial_session (\<lambda>v. [])) = Inl (AttributeError ''iterator_src'')"
proof -
  obtain m g where m: "example_construct hparams_example INFER = Inr (m, g)"
    using example_construct_INFER by blast
  from infer_and_source_fails[OF m[unfolded example_construct_def],
      of "initial_session (\<lambda>v. [])"] m
  show ?thesis by auto
qed

text \<open>On the instance constructed in TRAIN mode the call fails with an
  \<^verbatim>\<open>AssertionError\<close>, not with an \<^verbatim>\<open>AttributeError\<close>.\<close>

theorem infer_and_source_counterexample:
  "map_sum id (\<lambda>(m, g). infer_and_source m (initial_session (\<lambda>v. [])))
     (example_construct hparams_example TRAIN) = Inr (Inl AssertionError)
   \<and> AssertionError \<noteq> AttributeError ''iterator_src''"
proof -
  obtain m where m: "example_construct hparams_example TRAIN = Inr (m, example_graph)"
    using example_construct_TRAIN by blast
  from BaseModel_init_mode[OF m[unfolded example_construct_def]] m
  show ?thesis
    by (simp add: infer_and_source_def)
qed

subsection \<open>The discriminator's weights\<close>

lemma build_discriminator_eq:
  "build_discriminator X vs x g =
     Inr ((discriminator_net X vs x, tf_softmax X (discriminator_net X vs x)),
          fold get_variable_auto_reuse (discriminator_weights vs) g)"
  by (simp add: build_discriminator_def layers_dense_tanh_def then_build_def ret_def
      discriminator_net_def discriminator_weights_def Let_def)

lemma build_graph_passes_discriminators:
  assumes "build_graph_passes H X self hp scope g = Inr (p, g')"
  shows "discriminator_logits_s2s p
           = discriminator_net X (auto_scope scope) (encoder_outputs_s2s p)"
    "discriminator_logits_t2t p
           = discriminator_net X (auto_scope scope) (encoder_outputs_t2t p)"
    "discriminator_logits_s2t p
           = discriminator_net X (cross_scope scope) (encoder_outputs_s2t p)"
    "discriminator_logits_t2s p
           = discriminator_net X (cross_scope scope) (encoder_outputs_t2s p)"
  using assms
  by (auto simp: build_graph_passes_def then_build_Inr_iff ret_Inr_iff build_discriminator_eq
      Let_def split: prod.splits)

lemma default_scopes:
  assumes "scope = None \<or> scope = Some []"
  shows "auto_scope scope = ''dynamic_seq2seq/auto''"
    "cross_scope scope = ''dynamic_seq2seq/cross''"
  using assms by (auto simp: auto_scope_def cross_scope_def py_or_def variable_scope_def)

lemma default_weights_distinct:
  "distinct (discriminator_weights ''dynamic_seq2seq/auto''
             @ discriminator_weights ''dynamic_seq2seq/cross'')"
  by (simp add: discriminator_weights_def dense_kernel_def dense_bias_def variable_scope_def)

lemma given_scope:
  assumes "s \<noteq> []"
  shows "auto_scope (Some s) = s @ ''/'' @ s" "cross_scope (Some s) = s @ ''/'' @ s"
  using assms by (auto simp: auto_scope_def cross_scope_def py_or_def variable_scope_def)

text \<open>
  Claim C3, as the code has it. For every constructed model the discriminator applied to
  the encoder outputs of a pass is the three-layer network on the weight set of the
  variable scope the pass is built in: the passes s2s and t2t use the set in the scope
  \<^verbatim>\<open>auto\<close>, the passes s2t and t2s the set in the scope \<^verbatim>\<open>cross\<close>. Without a scope
  argument these are \<^verbatim>\<open>dynamic_seq2seq/auto\<close> and \<^verbatim>\<open>dynamic_seq2seq/cross\<close>, whose
  weight sets are two disjoint sets of six variables (kernel and bias of three dense
  layers); with a scope name \<open>s\<close> both scopes are \<open>s/s\<close> and all four passes share one
  weight set.
\<close>

theorem discriminator_weights_by_scope:
  assumes "build_graph_passes H X self hp scope g = Inr (p, g')"
  shows "discriminator_logits_s2s p
           = discriminator_net X (auto_scope scope) (encoder_outputs_s2s p)
       \<and> discriminator_logits_t2t p
           = discriminator_net X (auto_scope scope) (encoder_outputs_t2t p)
       \<and> discriminator_logits_s2t p
           = discriminator_net X (cross_scope scope) (encoder_outputs_s2t p)
       \<and> discriminator_logits_t2s p
           = discriminator_net X (cross_scope scope) (encoder_outputs_t2s p)
       \<and> (scope = None \<or> scope = Some [] \<longrightarrow>
            auto_scope scope = ''dynamic_seq2seq/auto''
          \<and> cross_scope scope = ''dynamic_seq2seq/cross''
          \<and> length (discriminator_weights (auto_scope scope)) = 6
          \<and> length (discriminator_weights (cross_scope scope)) = 6
          \<and> distinct (discriminator_weights (auto_scope scope)
                       @ discriminator_weights (cross_scope scope)))
       \<and> (\<forall>s. scope = Some s \<and> s \<noteq> [] \<longrightarrow>
            auto_scope scope = s @ ''/'' @ s \<and> cross_scope scope = auto_scope scope)"
  using build_graph_passes_discriminators[OF assms] default_scopes[of scope]
    default_weights_distinct given_scope
  by (auto simp: discriminator_weights_def Let_def)

theorem discriminator_weights_by_scope_witness:
  "discriminator_logits_s2s example_passes
     = discriminator_net ext_example ''dynamic_seq2seq/auto'' (encoder_outputs_s2s example_passes)
   \<and> discriminator_logits_t2s example_passes
     = discriminator_net ext_example ''dynamic_seq2seq/cross'' (encoder_outputs_t2s example_passes)
   \<and> distinct (discriminator_weights ''dynamic_seq2seq/auto''
                @ discriminator_weights ''dynamic_seq2seq/cross'')
   \<and> auto_scope (Some ''nmt'') = ''nmt/nmt'' \<and> cross_scope (Some ''nmt'') = ''nmt/nmt''"
proof -
  have M: "TRAIN \<noteq> INFER" by simp
  obtain p g where P: "build_graph_passes Example_hooks ext_example (example_self TRAIN)
      hparams_example (Some ''nmt'') example_embeddings = Inr (p, g)"
    using example_passes_scoped by blast
  from discriminator_weights_by_scope[OF example_passes_eq[OF M]]
    discriminator_weights_by_scope[OF P]
  show ?thesis by (simp add: default_weights_distinct[unfolded distinct_append])
qed

text \<open>After the four passes of the instance (no scope argument) the discriminator
  parameter set holds twelve variables, the six of \<^verbatim>\<open>dynamic_seq2seq/auto\<close> and the six
  of \<^verbatim>\<open>dynamic_seq2seq/cross\<close>: two weight sets, not one.\<close>

theorem discriminator_weights_counterexample:
  "map_sum id (\<lambda>(p, g). params_D g)
     (build_graph_passes Example_hooks ext_example (example_self TRAIN) hparams_example None
        example_embeddings)
   = Inr (discriminator_weights ''dynamic_seq2seq/auto''
          @ discriminator_weights ''dynamic_seq2seq/cross'')
   \<and> length (discriminator_weights ''dynamic_seq2seq/auto''
             @ discriminator_weights ''dynamic_seq2seq/cross'') = 12
   \<and> set (discriminator_weights ''dynamic_seq2seq/auto'')
       \<inter> set (discriminator_weights ''dynamic_seq2seq/cross'') = {}"
proof -
  have M: "TRAIN \<noteq> INFER" by simp
  have D: "params_D example_graph
      = discriminator_weights ''dynamic_seq2seq/auto''
        @ discriminator_weights ''dynamic_seq2seq/cross''"
    by (simp add: params_D_def trainable_variables_def example_graph_def
        re_match_discriminator_def sublist_code discriminator_weights_def dense_kernel_def
        dense_bias_def variable_scope_def)
  have I: "set (discriminator_weights ''dynamic_seq2seq/auto'')
       \<inter> set (discriminator_weights ''dynamic_seq2seq/cross'') = {}"
    using default_weights_distinct unfolding distinct_append by blast
  have L: "length (discriminator_weights ''dynamic_seq2seq/auto''
             @ discriminator_weights ''dynamic_seq2seq/cross'') = 12"
    by (simp add: discriminator_weights_def Let_def)
  show ?thesis
    using I L by (simp add: example_passes_eq[OF M] D)
qed

subsection \<open>The reconstruction loss\<close>

lemma reduce_sum_nth:
  assumes "length M = n" and "\<And>i. i < n \<Longrightarrow> length (M ! i) = m"
  shows "reduce_sum M = (\<Sum>i<n. \<Sum>j<m. M ! i ! j)"
proof -
  have "reduce_sum M = (\<Sum>i<n. sum_list (M ! i))"
    using assms(1) by (simp add: reduce_sum_def sum_list_sum_nth atLeast0LessThan)
  also have "\<dots> = (\<Sum>i<n. \<Sum>j<m. M ! i ! j)"
    by (rule sum.cong) (simp_all add: assms(2) sum_list_sum_nth atLeast0LessThan)
  finally show ?thesis .
qed

lemma sequence_mask_nth:
  "b < length lens \<Longrightarrow> t < T \<Longrightarrow>
   sequence_mask lens T ! b ! t = (if int t < lens ! b then 1 else 0)"
  by (simp add: sequence_mask_def)

lemma sequence_mask_length:
  "length (sequence_mask lens T) = length lens"
  "b < length lens \<Longrightarrow> length (sequence_mask lens T ! b) = T"
  by (simp_all add: sequence_mask_def)

lemma masked_sum_batch_major:
  assumes tm: "\<not> self_time_major self" and S: "loss_shapes self lg it B T"
  shows "masked_crossent_sum X self lg it = (\<Sum>b<B. \<Sum>t<T. masked_term X self lg it b t)"
proof (cases "B = 0")
  case True
  with S show ?thesis
    by (simp add: loss_shapes_def masked_crossent_sum_def tm reduce_sum_def sequence_mask_def)
next
  case False
  from S tm have len: "length (target_output it) = B" "length (target_sequence_length it) = B"
    "length lg = B" and rows: "\<And>b. b < B \<Longrightarrow> length (target_output it ! b) = T"
    "\<And>b. b < B \<Longrightarrow> length (lg ! b) = T"
    by (auto simp: loss_shapes_def)
  have mt: "get_max_time self (target_output it) = T"
    using False len(1) rows(1)[of 0] tm
    by (cases "target_output it") (auto simp: get_max_time_def)
  let ?M = "map2 (map2 (*))
              (map2 (map2 (tf_sparse_softmax_cross_entropy_with_logits X)) lg (target_output it))
              (sequence_mask (target_sequence_length it) T)"
  have eq: "masked_crossent_sum X self lg it = reduce_sum ?M"
    by (simp add: masked_crossent_sum_def tm mt Let_def)
  have lenM: "length ?M = B"
    by (simp add: len sequence_mask_length)
  have rowM: "length (?M ! b) = T" if "b < B" for b
    using that by (simp add: len rows sequence_mask_length)
  have elt: "?M ! b ! t = masked_term X self lg it b t" if "b < B" "t < T" for b t
    using that
    by (simp add: len rows sequence_mask_length sequence_mask_nth masked_term_def logit_at_def tm)
  have "reduce_sum ?M = (\<Sum>b<B. \<Sum>t<T. ?M ! b ! t)"
    by (rule reduce_sum_nth[OF lenM rowM])
  also have "\<dots> = (\<Sum>b<B. \<Sum>t<T. masked_term X self lg it b t)"
    by (intro sum.cong refl) (simp add: elt)
  finally show ?thesis using eq by simp
qed

lemma transpose_nth_rect:
  assumes "xs \<noteq> []" "\<And>i. i < length xs \<Longrightarrow> length (xs ! i) = n"
  shows "transpose xs = map (\<lambda>t. map (\<lambda>b. xs ! b ! t) [0..<length xs]) [0..<n]"
  by (rule transpose_rectangle) (use assms in auto)

lemma masked_sum_time_major:
  assumes tm: "self_time_major self" and S: "loss_shapes self lg it B T"
  shows "masked_crossent_sum X self lg it = (\<Sum>b<B. \<Sum>t<T. masked_term X self lg it b t)"
proof (cases "B = 0")
  case True
  with S show ?thesis
    by (simp add: loss_shapes_def masked_crossent_sum_def tm reduce_sum_def sequence_mask_def
        get_max_time_def)
next
  case False
  from S tm have len: "length (target_output it) = B" "length (target_sequence_length it) = B"
    "length lg = T" and rows: "\<And>b. b < B \<Longrightarrow> length (target_output it ! b) = T"
    "\<And>t. t < T \<Longrightarrow> length (lg ! t) = B"
    by (auto simp: loss_shapes_def)
  have ne: "target_output it \<noteq> []" "sequence_mask (target_sequence_length it) T \<noteq> []"
    using False len by (auto simp: sequence_mask_def)
  have tr: "transpose (target_output it)
      = map (\<lambda>t. map (\<lambda>b. target_output it ! b ! t) [0..<B]) [0..<T]"
    using transpose_nth_rect[OF ne(1), of T] rows(1) len(1) by simp
  have mt: "get_max_time self (transpose (target_output it)) = T"
    by (simp add: get_max_time_def tm tr)
  have trw: "transpose (sequence_mask (target_sequence_length it) T)
      = map (\<lambda>t. map (\<lambda>b. sequence_mask (target_sequence_length it) T ! b ! t) [0..<B]) [0..<T]"
    using transpose_nth_rect[OF ne(2), of T] by (simp add: sequence_mask_length len)
  let ?M = "map2 (map2 (*))
              (map2 (map2 (tf_sparse_softmax_cross_entropy_with_logits X)) lg
                 (transpose (target_output it)))
              (transpose (sequence_mask (target_sequence_length it) T))"
  have eq: "masked_crossent_sum X self lg it = reduce_sum ?M"
    by (simp add: masked_crossent_sum_def tm mt Let_def)
  have lenM: "length ?M = T"
    by (simp add: len tr trw)
  have rowM: "length (?M ! t) = B" if "t < T" for t
    using that by (simp add: len rows tr trw)
  have elt: "?M ! t ! b = masked_term X self lg it b t" if "b < B" "t < T" for b t
    using that
    by (simp add: len rows tr trw sequence_mask_nth masked_term_def logit_at_def tm)
  have "reduce_sum ?M = (\<Sum>t<T. \<Sum>b<B. ?M ! t ! b)"
    by (rule reduce_sum_nth[OF lenM rowM])
  also have "\<dots> = (\<Sum>t<T. \<Sum>b<B. masked_term X self lg it b t)"
    by (intro sum.cong refl) (simp add: elt)
  also have "\<dots> = (\<Sum>b<B. \<Sum>t<T. masked_term X self lg it b t)"
    by (rule sum.swap)
  finally show ?thesis using eq by simp
qed

lemma masked_sum_formula:
  assumes "loss_shapes self lg it B T"
  shows "masked_crossent_sum X self lg it = (\<Sum>b<B. \<Sum>t<T. masked_term X self lg it b t)"
  using masked_sum_batch_major[OF _ assms] masked_sum_time_major[OF _ assms] by blast

lemma sum_lessThan_add:
  fixes f :: "nat \<Rightarrow> real"
  shows "(\<Sum>i<m + n. f i) = (\<Sum>i<m. f i) + (\<Sum>i<n. f (m + i))"
  by (induction n) (simp_all add: add.assoc)

lemma tile_shapes:
  assumes "loss_shapes self lg it B T" and "self_time_major self' = self_time_major self"
  shows "loss_shapes self' (tile_logits self lg) (tile_batch it) (B + B) T"
  using assms by (auto simp: loss_shapes_def tile_logits_def tile_batch_def)

lemma tile_term:
  assumes S: "loss_shapes self lg it B T" and tm: "self_time_major self' = self_time_major self"
    and b: "b < B" and t: "t < T"
  shows "masked_term X self' (tile_logits self lg) (tile_batch it) b t
           = masked_term X self lg it b t"
    and "masked_term X self' (tile_logits self lg) (tile_batch it) (B + b) t
           = masked_term X self lg it b t"
  using assms
  by (auto simp: loss_shapes_def masked_term_def logit_at_def tile_logits_def tile_batch_def
      nth_append)

lemma tile_sum:
  assumes S: "loss_shapes self lg it B T" and tm: "self_time_major self' = self_time_major self"
  shows "masked_crossent_sum X self' (tile_logits self lg) (tile_batch it)
           = 2 * masked_crossent_sum X self lg it"
proof -
  have "masked_crossent_sum X self' (tile_logits self lg) (tile_batch it)
      = (\<Sum>b<B + B. \<Sum>t<T. masked_term X self' (tile_logits self lg) (tile_batch it) b t)"
    by (rule masked_sum_formula[OF tile_shapes[OF S tm]])
  also have "\<dots>
      = (\<Sum>b<B. \<Sum>t<T. masked_term X self' (tile_logits self lg) (tile_batch it) b t)
        + (\<Sum>b<B. \<Sum>t<T. masked_term X self' (tile_logits self lg) (tile_batch it) (B + b) t)"
    by (rule sum_lessThan_add)
  also have "\<dots> = (\<Sum>b<B. \<Sum>t<T. masked_term X self lg it b t)
                 + (\<Sum>b<B. \<Sum>t<T. masked_term X self lg it b t)"
    by (intro arg_cong2[where f="(+)"] sum.cong refl) (simp_all add: tile_term[OF S tm])
  also have "\<dots> = 2 * masked_crossent_sum X self lg it"
    by (simp add: masked_sum_formula[OF S])
  finally show ?thesis .
qed

text \<open>
  Claim C5, as the code has it. For every pass of a model that the constructor has set
  up on an s2s batch that is not empty, on logits and a batch of the shapes
  \<^verbatim>\<open>_compute_loss\<close> is called on, the reconstruction loss is the sum over the \<open>B\<close>
  sequences and the \<open>T\<close> positions of the pass's batch of the token's cross-entropy where
  the position is below the sequence's true target length, divided by the batch size of
  the model: the size of the s2s iterator's source-length vector (line 121). That is
  neither the number of unmasked tokens nor the size \<open>B\<close> of the pass's own batch, unless
  the two sizes agree. Consequently the loss of a pass equals the loss on its batch
  repeated to twice the size in the model constructed on the s2s batch repeated with it;
  in the same model, repeating the batch of the pass doubles its loss. (In the reals; in
  float32 up to rounding.)
\<close>

theorem reconstruction_loss_model_batch_normalised:
  assumes A: "init_attributes X hp md i1 i2 i3 i4 sv tv scope g = Inr (self, g0)"
    and A2: "init_attributes X hp md (tile_batch i1) j2 j3 j4 sv tv scope g = Inr (self2, g2)"
    and S: "loss_shapes self lg it B T"
    and N: "source_sequence_length i1 \<noteq> []"
  shows "compute_loss X self (Logits lg) it
           = Inr ((\<Sum>b<B. \<Sum>t<T. masked_term X self lg it b t)
                  / real (length (source_sequence_length i1)))
       \<and> (length (source_sequence_length i1) = B \<longrightarrow>
            compute_loss X self (Logits lg) it
              = Inr ((\<Sum>b<B. \<Sum>t<T. masked_term X self lg it b t) / real B))
       \<and> compute_loss X self2 (Logits (tile_logits self lg)) (tile_batch it)
           = compute_loss X self (Logits lg) it
       \<and> compute_loss X self (Logits (tile_logits self lg)) (tile_batch it)
           = Inr (2 * (\<Sum>b<B. \<Sum>t<T. masked_term X self lg it b t)
                  / real (length (source_sequence_length i1)))"
proof -
  note F = init_attributes_fields(6,7)[OF A]
  note F2 = init_attributes_fields(6,7)[OF A2]
  have n: "0 < length (source_sequence_length i1)"
    using N by simp
  have b2: "self_batch_size self2 = 2 * length (source_sequence_length i1)"
    using F2(1) by (simp add: tile_batch_def)
  have M: "masked_crossent_sum X self lg it = (\<Sum>b<B. \<Sum>t<T. masked_term X self lg it b t)"
    by (rule masked_sum_formula[OF S])
  have T1: "masked_crossent_sum X self (tile_logits self lg) (tile_batch it)
              = 2 * (\<Sum>b<B. \<Sum>t<T. masked_term X self lg it b t)"
    using tile_sum[OF S, of self X] M by simp
  have T2: "masked_crossent_sum X self2 (tile_logits self lg) (tile_batch it)
              = 2 * (\<Sum>b<B. \<Sum>t<T. masked_term X self lg it b t)"
    using tile_sum[OF S, of self2 X] M F(2) F2(2) by simp
  have 1: "compute_loss X self (Logits lg) it
           = Inr ((\<Sum>b<B. \<Sum>t<T. masked_term X self lg it b t)
                  / real (length (source_sequence_length i1)))"
    by (simp add: compute_loss_def M F(1))
  have 3: "compute_loss X self2 (Logits (tile_logits self lg)) (tile_batch it)
           = compute_loss X self (Logits lg) it"
    using n unfolding 1 by (simp add: compute_loss_def T2 b2)
  have 4: "compute_loss X self (Logits (tile_logits self lg)) (tile_batch it)
           = Inr (2 * (\<Sum>b<B. \<Sum>t<T. masked_term X self lg it b t)
                  / real (length (source_sequence_length i1)))"
    by (simp add: compute_loss_def T1 F(1))
  show ?thesis
    using 1 3 4 by simp
qed

text \<open>The model constructed on a batch of two sequences with three tokens and one token
  unmasked: the loss is the four tokens' cross-entropy over the batch size 2, not over
  the 4 tokens; the model constructed on the batch repeated gives the same loss on the
  batch repeated, and the first model twice the loss.\<close>

theorem reconstruction_loss_model_batch_normalised_witness:
  "init_attributes ext_example hparams_example TRAIN batch_ragged batch_ragged batch_ragged
       batch_ragged vocab_example vocab_example None []
     = Inr (example_self_on batch_ragged, example_embeddings)
   \<and> init_attributes ext_example hparams_example TRAIN (tile_batch batch_ragged)
       (tile_batch batch_ragged) (tile_batch batch_ragged) (tile_batch batch_ragged)
       vocab_example vocab_example None []
     = Inr (example_self_on (tile_batch batch_ragged), example_embeddings)
   \<and> self_batch_size (example_self_on batch_ragged) = 2
   \<and> self_batch_size (example_self_on (tile_batch batch_ragged)) = 4
   \<and> loss_shapes (example_self_on batch_ragged)
       [[[0, 0], [0, 0], [0, 0]], [[0, 0], [0, 0], [0, 0]]] batch_ragged 2 3
   \<and> compute_loss ext_example (example_self_on batch_ragged)
       (Logits [[[0, 0], [0, 0], [0, 0]], [[0, 0], [0, 0], [0, 0]]]) batch_ragged
     = Inr (4 * ln 2 / 2)
   \<and> compute_loss ext_example (example_self_on (tile_batch batch_ragged))
       (Logits (tile_logits (example_self_on batch_ragged)
                  [[[0, 0], [0, 0], [0, 0]], [[0, 0], [0, 0], [0, 0]]]))
       (tile_batch batch_ragged)
     = Inr (4 * ln 2 / 2)
   \<and> compute_loss ext_example (example_self_on batch_ragged)
       (Logits (tile_logits (example_self_on batch_ragged)
                  [[[0, 0], [0, 0], [0, 0]], [[0, 0], [0, 0], [0, 0]]]))
       (tile_batch batch_ragged)
     = Inr (2 * (4 * ln 2) / 2)"
proof -
  let ?self = "example_self_on batch_ragged"
  let ?lg = "[[[0, 0], [0, 0], [0, 0]], [[0, 0], [0, 0], [0, 0]]] :: tensor3"
  note A = example_attributes_on[of batch_ragged]
  note A2 = example_attributes_on[of "tile_batch batch_ragged"]
  have S: "loss_shapes ?self ?lg batch_ragged 2 3"
    by (simp add: loss_shapes_def batch_ragged_def example_self_on_def example_self_def)
  have N: "source_sequence_length batch_ragged \<noteq> []"
    by (simp add: batch_ragged_def)
  have L: "length (source_sequence_length batch_ragged) = 2"
    by (simp add: batch_ragged_def)
  have two: "{..<2::nat} = {0, 1}" and three: "{..<3::nat} = {0, 1, 2}" by auto
  have F: "(\<Sum>b<2. \<Sum>t<3. masked_term ext_example ?self ?lg batch_ragged b t) = 4 * ln 2"
    by (simp add: two three masked_term_def logit_at_def batch_ragged_def ext_example_def
        softmax_crossent_def example_self_on_def example_self_def)
  have B: "self_batch_size ?self = 2"
    "self_batch_size (example_self_on (tile_batch batch_ragged)) = 4"
    by (simp_all add: example_self_on_def batch_ragged_def tile_batch_def)
  from reconstruction_loss_model_batch_normalised[OF A A2 S N] A A2 S B
  show ?thesis
    unfolding F L by simp
qed

text \<open>On the instance the t2t pass has a batch of two sequences and the model the batch
  size 1 of the s2s iterator: the t2t loss is the masked sum \<open>2 * ln 2\<close> and not the sum
  divided by 2. In the model constructed with the t2t batch repeated and the s2s batch as
  it is, the loss of the t2t pass on the batch repeated is twice the loss.\<close>

theorem reconstruction_loss_counterexample:
  "init_attributes ext_example hparams_example TRAIN batch_one batch_two batch_one batch_two
       vocab_example vocab_example None []
     = Inr (example_self TRAIN, example_embeddings)
   \<and> logits_t2t example_passes = Logits [[[0, 0]], [[0, 0]]]
   \<and> loss_shapes (example_self TRAIN) [[[0, 0]], [[0, 0]]] batch_two 2 1
   \<and> compute_loss ext_example (example_self TRAIN) (Logits [[[0, 0]], [[0, 0]]]) batch_two
     = Inr (2 * ln 2)
   \<and> compute_loss ext_example (example_self TRAIN) (Logits [[[0, 0]], [[0, 0]]]) batch_two
     \<noteq> Inr (masked_crossent_sum ext_example (example_self TRAIN) [[[0, 0]], [[0, 0]]] batch_two
            / real (length (target_output batch_two)))
   \<and> init_attributes ext_example hparams_example TRAIN batch_one (tile_batch batch_two)
       batch_one batch_two vocab_example vocab_example None []
     = Inr ((example_self TRAIN)\<lparr>self_iterator_t2t := tile_batch batch_two\<rparr>,
            example_embeddings)
   \<and> compute_loss ext_example ((example_self TRAIN)\<lparr>self_iterator_t2t := tile_batch batch_two\<rparr>)
       (Logits (tile_logits (example_self TRAIN) [[[0, 0]], [[0, 0]]])) (tile_batch batch_two)
     = Inr (4 * ln 2)
   \<and> compute_loss ext_example ((example_self TRAIN)\<lparr>self_iterator_t2t := tile_batch batch_two\<rparr>)
       (Logits (tile_logits (example_self TRAIN) [[[0, 0]], [[0, 0]]])) (tile_batch batch_two)
     \<noteq> compute_loss ext_example (example_self TRAIN) (Logits [[[0, 0]], [[0, 0]]]) batch_two"
proof -
  have pos: "0 < ln (2::real)" by simp
  have m: "masked_crossent_sum ext_example (example_self TRAIN) [[[0, 0]], [[0, 0]]] batch_two
           = 2 * ln 2"
    by (simp add: masked_crossent_sum_def get_max_time_def sequence_mask_def reduce_sum_def
        softmax_crossent_def example_self_def ext_example_def batch_two_def upt_rec Let_def)
  have m2: "masked_crossent_sum ext_example
              ((example_self TRAIN)\<lparr>self_iterator_t2t := tile_batch batch_two\<rparr>)
              (tile_logits (example_self TRAIN) [[[0, 0]], [[0, 0]]]) (tile_batch batch_two)
           = 4 * ln 2"
    by (simp add: masked_crossent_sum_def get_max_time_def sequence_mask_def reduce_sum_def
        softmax_crossent_def example_self_def ext_example_def batch_two_def upt_rec Let_def
        tile_logits_def tile_batch_def)
  have b: "self_batch_size (example_self TRAIN) = 1"
    "length (target_output batch_two) = 2"
    by (simp_all add: example_self_def batch_two_def)
  have S: "loss_shapes (example_self TRAIN) [[[0, 0]], [[0, 0]]] batch_two 2 1"
    by (simp add: loss_shapes_def batch_two_def example_self_def)
  have A2: "init_attributes ext_example hparams_example TRAIN batch_one (tile_batch batch_two)
       batch_one batch_two vocab_example vocab_example None []
     = Inr ((example_self TRAIN)\<lparr>self_iterator_t2t := tile_batch batch_two\<rparr>,
            example_embeddings)"
    by (simp add: init_attributes_def monad_defs ext_example_def hparams_example_def
        example_self_def example_embeddings_def batch_one_def)
  have L: "logits_t2t example_passes = Logits [[[0, 0]], [[0, 0]]]"
    by (simp add: example_passes_def)
  have c1: "compute_loss ext_example (example_self TRAIN) (Logits [[[0, 0]], [[0, 0]]]) batch_two
     = Inr (2 * ln 2)"
    by (simp add: compute_loss_def m b)
  have c2: "compute_loss ext_example
       ((example_self TRAIN)\<lparr>self_iterator_t2t := tile_batch batch_two\<rparr>)
       (Logits (tile_logits (example_self TRAIN) [[[0, 0]], [[0, 0]]])) (tile_batch batch_two)
     = Inr (4 * ln 2)"
    by (simp add: compute_loss_def m2 b)
  show ?thesis
    unfolding c1 c2 using pos S by (simp add: example_attributes A2 L m b)
qed

lemma compute_loss_Inr:
  assumes "compute_loss X self lgs it = Inr x"
  shows "\<exists>lg. lgs = Logits lg \<and> x = masked_crossent_sum X self lg it / real (self_batch_size self)"
  using assms by (auto simp: compute_loss_def split: logits.splits)

text \<open>
  Claim C9. The batch size of the model is the size of the s2s iterator's source-length
  vector, and the reconstruction loss of each of the four passes (s2s, t2t, s2t, t2s) is
  the masked cross-entropy sum over that pass's own batch divided by this one batch size,
  whatever the batch size of the pass's own iterator.
\<close>

theorem one_batch_size_for_all_losses:
  assumes "init_attributes X hp md i_s2s i_t2t i_s2t i_t2s sv tv scope g = Inr (self, g0)"
      and "build_graph_losses X self p = Inr l"
  shows "self_batch_size self = length (source_sequence_length i_s2s)
     \<and> (\<exists>a b c d. logits_s2s p = Logits a \<and> logits_t2t p = Logits b
           \<and> logits_s2t p = Logits c \<and> logits_t2s p = Logits d
           \<and> loss_auto_s2s l = masked_crossent_sum X self a i_s2s
                                / real (length (source_sequence_length i_s2s))
           \<and> loss_auto_t2t l = masked_crossent_sum X self b i_t2t
                                / real (length (source_sequence_length i_s2s))
           \<and> loss_cross_s2t l = masked_crossent_sum X self c i_s2t
                                 / real (length (source_sequence_length i_s2s))
           \<and> loss_cross_t2s l = masked_crossent_sum X self d i_t2s
                                 / real (length (source_sequence_length i_s2s)))"
proof -
  note A = init_attributes_fields[OF assms(1)]
  note F = build_graph_losses_fields(1-4)[OF assms(2)]
  from compute_loss_Inr[OF F(1)] compute_loss_Inr[OF F(2)] compute_loss_Inr[OF F(3)]
    compute_loss_Inr[OF F(4)]
  show ?thesis using A by auto
qed

text \<open>On the instance the t2t iterator holds two sequences and the s2s iterator one: the
  t2t loss is the sum over both sequences, \<open>2 * ln 2\<close>, divided by 1.\<close>

theorem one_batch_size_for_all_losses_witness:
  "length (source_sequence_length batch_one) = 1 \<and> length (source_sequence_length batch_two) = 2
   \<and> self_batch_size (example_self TRAIN) = 1
   \<and> masked_crossent_sum ext_example (example_self TRAIN) [[[0, 0]], [[0, 0]]] batch_two = 2 * ln 2
   \<and> loss_auto_t2t example_losses
       = masked_crossent_sum ext_example (example_self TRAIN) [[[0, 0]], [[0, 0]]] batch_two
         / real (length (source_sequence_length batch_one))"
proof -
  have m: "masked_crossent_sum ext_example (example_self TRAIN) [[[0, 0]], [[0, 0]]] batch_two
           = 2 * ln 2"
    by (simp add: masked_crossent_sum_def get_max_time_def sequence_mask_def reduce_sum_def
        softmax_crossent_def example_self_def ext_example_def batch_two_def upt_rec Let_def)
  from one_batch_size_for_all_losses[OF example_attributes example_losses_eq, of TRAIN] m
  show ?thesis
    by (auto simp: example_passes_def batch_one_def batch_two_def)
qed

subsection \<open>The encoder of class \<^verbatim>\<open>Model\<close>\<close>

lemma Model_build_encoder_unassigned:
  "self_embedding_encoder self = None \<Longrightarrow>
   Model_build_encoder X self hp vs it emb g = Inl (AttributeError ''embedding_encoder'')"
  by (simp add: Model_build_encoder_def raise_def Let_def)

lemma build_graph_fails:
  assumes "\<exists>e. build_graph_passes H X self hp scope g = Inl e"
  shows "\<exists>e. build_graph H X self hp scope g = Inl e"
  using assms by (auto simp: build_graph_def then_build_def)

lemma Model_init_unassigned:
  assumes "init_attributes X hp md i1 i2 i3 i4 sv tv scope g = Inr (self, g0)"
  shows "Model_init X hp md i1 i2 i3 i4 sv tv rs rt scope g
           = Inl (AttributeError ''embedding_encoder'')"
proof -
  have N: "self_embedding_encoder self = None"
    by (rule init_attributes_fields(11)[OF assms])
  have "build_graph_passes (Model_hooks X) X self hp scope g0
          = Inl (AttributeError ''embedding_encoder'')"
    unfolding build_graph_passes_def Let_def
    by (rule then_build_Inl) (simp add: Model_hooks_def Model_build_encoder_unassigned[OF N])
  then have "build_graph (Model_hooks X) X self hp scope g0
          = Inl (AttributeError ''embedding_encoder'')"
    by (simp add: build_graph_def then_build_def)
  then show ?thesis
    by (simp add: Model_init_def BaseModel_init_def then_build_def assms)
qed

lemma interleave_states_Tuple:
  assumes "\<forall>i\<in>set ids. i < length fs \<and> i < length bs"
  shows "interleave_states (Tuple fs, Tuple bs) ids
           = Inr (concat (map (\<lambda>i. [fs ! i, bs ! i]) ids))"
  using assms by (induction ids) simp_all

text \<open>What lines 761-802 compute for \<^verbatim>\<open>encoder_type = "bi"\<close> once the embedding has
  been found: with one bidirectional layer the pair of the two states as it is, otherwise
  the layers' forward and backward states in turn.\<close>

lemma Model_build_encoder_bi:
  assumes "self_embedding_encoder self = Some e" and "encoder_type hp = ''bi''"
    and "n = py_int_div (self_num_encoder_layers self) 2"
    and "build_bidirectional_rnn X self (variable_scope vs ''encoder'')
           (tf_embedding_lookup X e
              (if self_time_major self then transpose (source it) else source it))
           (source_sequence_length it) hp n
           (py_int_div (self_num_encoder_residual_layers self) 2) 0 g
         = Inr ((outs, (fw, bw)), g')"
  shows "n = 1 \<Longrightarrow> Model_build_encoder X self hp vs it emb g = Inr ((outs, Tuple [fw, bw]), g')"
    and "n \<noteq> 1 \<Longrightarrow> fw = Tuple fs \<Longrightarrow> bw = Tuple bs \<Longrightarrow> length fs = nat n
         \<Longrightarrow> length bs = nat n \<Longrightarrow>
         Model_build_encoder X self hp vs it emb g
           = Inr ((outs, Tuple (concat (map (\<lambda>i. [fs ! i, bs ! i]) [0..<nat n]))), g')"
  using assms
  by (simp_all add: Model_build_encoder_def Let_def then_build_def ret_def lift_def
      py_range_def interleave_states_Tuple)

text \<open>
  Claim C7. The claim describes what lines 776-802 compute (the lemma above): the pair as
  it is for one bidirectional layer, otherwise \<open>[fwd\<^sub>0, bwd\<^sub>0, fwd\<^sub>1, bwd\<^sub>1, \<dots>]\<close>. But the
  method first looks the source up in \<^verbatim>\<open>self.embedding_encoder\<close> (line 760) and not in
  its parameter \<^verbatim>\<open>embedding\<close>; the constructor never assigns that attribute (line 302
  is a comment). On every instance the constructor has set up, \<^verbatim>\<open>Model._build_encoder\<close>
  therefore raises \<^verbatim>\<open>AttributeError\<close> and returns no state, and so does the
  constructor of \<^verbatim>\<open>Model\<close>, which builds the graph.
\<close>

theorem Model_encoder_raises:
  assumes "init_attributes X hp md i1 i2 i3 i4 sv tv scope g = Inr (self, g0)"
  shows "Model_build_encoder X self hp vs it emb g1 = Inl (AttributeError ''embedding_encoder'')
       \<and> Model_init X hp md i1 i2 i3 i4 sv tv rs rt scope g
           = Inl (AttributeError ''embedding_encoder'')"
  using Model_build_encoder_unassigned[OF init_attributes_fields(11)[OF assms]]
    Model_init_unassigned[OF assms]
  by simp

text \<open>The instance has \<^verbatim>\<open>encoder_type = "bi"\<close> and four encoder layers.\<close>

theorem Model_encoder_raises_witness:
  "encoder_type hparams_example = ''bi'' \<and> num_encoder_layers hparams_example = 4
   \<and> Model_build_encoder ext_example (example_self TRAIN) hparams_example
        ''dynamic_seq2seq/auto'' batch_one [[0, 1/2], [0, 1/2]] example_embeddings
      = Inl (AttributeError ''embedding_encoder'')
   \<and> Model_init ext_example hparams_example TRAIN batch_one batch_two batch_one batch_two
        vocab_example vocab_example (Some words_example) (Some words_example) None []
      = Inl (AttributeError ''embedding_encoder'')"
  using Model_encoder_raises[OF example_attributes]
  by (simp add: hparams_example_fields hparams_example_def)

text \<open>With the attribute assigned, the same instance gives the four states in the
  claimed order: the forward states are 0 and 1, the backward states 10 and 11.\<close>

lemma Model_build_encoder_example:
  "map_sum id (\<lambda>((outs, st), g). st)
     (Model_build_encoder ext_example
        (assign_embedding_encoder (example_self TRAIN) [[0, 1/2], [0, 1/2]]) hparams_example
        ''dynamic_seq2seq/auto'' batch_one [[0, 1/2], [0, 1/2]] example_embeddings)
   = Inr (Tuple [Leaf [[0]], Leaf [[10]], Leaf [[1]], Leaf [[11]]])"
  by (simp add: Model_build_encoder_def assign_embedding_encoder_def example_self_def
      hparams_example_def ext_example_def build_bidirectional_rnn_def build_encoder_cell_def
      layer_states_def py_int_div_def signed_divide_int_def py_range_def then_build_def
      ret_def lift_def Let_def upt_rec)

subsection \<open>Unsupported configurations\<close>

lemma Model_build_encoder_unknown_type:
  "encoder_type hp \<notin> {''uni'', ''bi''} \<Longrightarrow>
   \<exists>e. Model_build_encoder X self hp vs it emb g = Inl e"
  by (auto simp: Model_build_encoder_def raise_def Let_def split: option.splits)

lemma Model_build_encoder_unknown_type_ValueError:
  "encoder_type hp \<notin> {''uni'', ''bi''} \<Longrightarrow> self_embedding_encoder self = Some e \<Longrightarrow>
   Model_build_encoder X self hp vs it emb g = Inl (ValueError ''Unknown encoder_type'')"
  by (auto simp: Model_build_encoder_def raise_def Let_def split: option.splits)

lemma build_decoder_attention:
  "attention hp \<Longrightarrow>
   build_decoder (Model_hooks_on f X) X self hp vs eo es it emb vt ol sos g
     = Inl (ValueError ''BasicModel does not support attention.'')"
  by (simp add: build_decoder_def Model_hooks_on_def Model_build_decoder_cell_def then_build_def
      lift_def Let_def)

lemma build_graph_passes_unknown_encoder_type:
  assumes "encoder_type hp \<notin> {''uni'', ''bi''}"
  shows "\<exists>e. build_graph_passes (Model_hooks_on f X) X self hp scope g = Inl e"
proof -
  obtain e where
    "build_encoder (Model_hooks_on f X) self hp (auto_scope scope) (self_iterator_s2s self)
       (self_embedding_src self) g = Inl e"
    using Model_build_encoder_unknown_type[OF assms, of X "f self (self_embedding_src self)"
        "auto_scope scope" "self_iterator_s2s self" "self_embedding_src self" g]
    by (auto simp: Model_hooks_on_def)
  then have "build_graph_passes (Model_hooks_on f X) X self hp scope g = Inl e"
    unfolding build_graph_passes_def Let_def by (rule then_build_Inl)
  then show ?thesis by blast
qed

lemma build_graph_passes_attention:
  assumes "attention hp"
  shows "\<exists>e. build_graph_passes (Model_hooks_on f X) X self hp scope g = Inl e"
  unfolding build_graph_passes_def Let_def
  apply (rule then_build_fails, clarsimp)
  apply (rule then_build_fails, clarsimp)
  apply (rule then_build_fails, clarsimp)
  apply (rule then_build_fails, clarsimp)
  apply (simp add: then_build_def build_decoder_attention[OF assms])
  done

lemma BaseModel_init_fails_graph:
  assumes "\<And>self g0. \<exists>e. build_graph H X self hp scope g0 = Inl e"
  shows "\<exists>e. BaseModel_init H X hp md i1 i2 i3 i4 sv tv rs rt scope g = Inl e"
  unfolding BaseModel_init_def
  apply (rule then_build_fails)
  subgoal for self g0
    using assms[of self g0] by (auto simp: then_build_def)
  done

lemma get_learning_rate_fails:
  "warmup_scheme hp \<noteq> ''t2t'' \<Longrightarrow>
   get_learning_rate_warmup hp lr = Inl (ValueError ''Unknown warmup scheme'')"
  "decay_scheme hp \<notin> {[], ''luong5'', ''luong10'', ''luong234''} \<Longrightarrow>
   get_learning_rate_decay hp lr = Inl (ValueError ''Unknown decay scheme'')"
  by (auto simp: get_learning_rate_warmup_def get_learning_rate_decay_def
      learning_rate_decay_params_def)

lemma build_learning_rate_fails:
  assumes "warmup_scheme hp \<noteq> ''t2t''
         \<or> decay_scheme hp \<notin> {[], ''luong5'', ''luong10'', ''luong234''}"
  shows "\<exists>e. build_learning_rate hp = Inl e"
  using assms
  by (auto simp: build_learning_rate_def get_learning_rate_warmup_def get_learning_rate_decay_def
      learning_rate_decay_params_def)

lemma init_training_fails:
  assumes "self_mode self = TRAIN"
    and "warmup_scheme hp \<noteq> ''t2t''
       \<or> decay_scheme hp \<notin> {[], ''luong5'', ''luong10'', ''luong234''}"
  shows "\<exists>e. init_training hp self l_ae l_D g = Inl e"
  using build_learning_rate_fails[OF assms(2)] assms(1)
  by (auto simp: init_training_def)

lemma BaseModel_init_fails_training:
  assumes "warmup_scheme hp \<noteq> ''t2t''
         \<or> decay_scheme hp \<notin> {[], ''luong5'', ''luong10'', ''luong234''}"
  shows "\<exists>e. BaseModel_init H X hp TRAIN i1 i2 i3 i4 sv tv rs rt scope g = Inl e"
proof (cases "BaseModel_init H X hp TRAIN i1 i2 i3 i4 sv tv rs rt scope g")
  case (Inl e)
  then show ?thesis by blast
next
  case (Inr r)
  obtain m g' where r: "r = (m, g')" by (cases r)
  from BaseModel_init_stages[OF Inr[unfolded r]] obtain self g0 a b c d l_ae l_D self' where
    A: "init_attributes X hp TRAIN i1 i2 i3 i4 sv tv scope g = Inr (self, g0)"
    and R: "init_results self rs rt a b c d l_ae = Inr self'"
    and T: "init_training hp self' l_ae l_D g' = Inr m"
    by blast
  have "self_mode self' = TRAIN"
    using init_attributes_fields(1)[OF A] init_results_fields(1)[OF R] by simp
  from init_training_fails[OF this assms, of l_ae l_D g'] T show ?thesis by simp
qed

text \<open>Outside TRAIN mode the constructor does not read the two schemes.\<close>

lemma hp_upd_encoder:
  "Model_build_encoder X self (hp\<lparr>warmup_scheme := w, decay_scheme := d\<rparr>)
     = Model_build_encoder X self hp"
  by (intro ext)
    (simp add: Model_build_encoder_def build_bidirectional_rnn_def build_encoder_cell_def Let_def
      split: option.split)

lemma hp_upd_decoder_cell:
  "Model_build_decoder_cell X self (hp\<lparr>warmup_scheme := w, decay_scheme := d\<rparr>)
     = Model_build_decoder_cell X self hp"
  by (intro ext) (simp add: Model_build_decoder_cell_def Let_def)

lemma hp_upd_decoder:
  "build_decoder (Model_hooks_on f X) X self (hp\<lparr>warmup_scheme := w, decay_scheme := d\<rparr>)
     = build_decoder (Model_hooks_on f X) X self hp"
  by (intro ext) (simp add: build_decoder_def Model_hooks_on_def hp_upd_decoder_cell
      get_infer_maximum_iterations_def Let_def case_prod_beta cong: if_cong)

lemma hp_upd_passes:
  "build_graph_passes (Model_hooks_on f X) X self (hp\<lparr>warmup_scheme := w, decay_scheme := d\<rparr>)
     = build_graph_passes (Model_hooks_on f X) X self hp"
proof -
  have enc: "build_encoder (Model_hooks_on f X) self (hp\<lparr>warmup_scheme := w, decay_scheme := d\<rparr>)
      = build_encoder (Model_hooks_on f X) self hp" for self
    by (intro ext) (simp add: Model_hooks_on_def hp_upd_encoder)
  show ?thesis
    by (intro ext)
      (simp add: build_graph_passes_def enc hp_upd_decoder Let_def case_prod_beta cong: if_cong)
qed

lemma hp_upd_graph:
  "build_graph (Model_hooks_on f X) X self (hp\<lparr>warmup_scheme := w, decay_scheme := d\<rparr>)
     = build_graph (Model_hooks_on f X) X self hp"
  by (intro ext) (simp add: build_graph_def hp_upd_passes)

lemma hp_upd_attributes:
  "init_attributes X (hp\<lparr>warmup_scheme := w, decay_scheme := d\<rparr>) = init_attributes X hp"
  by (intro ext) (simp add: init_attributes_def cong: option.case_cong)

lemma hp_upd_training:
  "self_mode self \<noteq> TRAIN \<Longrightarrow>
   init_training (hp\<lparr>warmup_scheme := w, decay_scheme := d\<rparr>) self l_ae l_D g
     = init_training hp self l_ae l_D g"
  by (simp add: init_training_def)

lemma hp_upd_init:
  assumes "md \<noteq> TRAIN"
  shows "BaseModel_init (Model_hooks_on f X) X (hp\<lparr>warmup_scheme := w, decay_scheme := d\<rparr>) md
           i1 i2 i3 i4 sv tv rs rt scope g
       = BaseModel_init (Model_hooks_on f X) X hp md i1 i2 i3 i4 sv tv rs rt scope g"
  unfolding BaseModel_init_def hp_upd_attributes hp_upd_graph
  apply (rule then_build_cong_weak)
  apply (rule then_build_cong_weak)
  apply (clarsimp)
  apply (rule then_build_cong_weak)
  apply (simp add: lift_Inr_iff)
  apply (rule arg_cong[where f="\<lambda>r. lift r _"])
  apply (rule hp_upd_training)
  using assms
  apply (auto dest!: init_attributes_fields(1) init_results_fields(1))
  done

text \<open>
  Claim C8, as the code has it. For class \<^verbatim>\<open>Model\<close> and every subclass that changes the
  instance before \<^verbatim>\<open>Model\<close>'s encoder runs, the constructor raises and returns no model
  whenever \<^verbatim>\<open>encoder_type\<close> is neither \<^verbatim>\<open>uni\<close> nor \<^verbatim>\<open>bi\<close> or \<^verbatim>\<open>attention\<close> is set, in
  every mode, and whenever \<^verbatim>\<open>warmup_scheme\<close> is not \<^verbatim>\<open>t2t\<close> or \<^verbatim>\<open>decay_scheme\<close> is
  not empty, \<^verbatim>\<open>luong5\<close>, \<^verbatim>\<open>luong10\<close> or \<^verbatim>\<open>luong234\<close>, in TRAIN mode. The learning rate is
  built in TRAIN mode only (line 166): in EVAL and INFER mode the two schemes are not
  read, and construction does the same whatever they are. The methods that check raise
  \<^verbatim>\<open>ValueError\<close>.
\<close>

theorem construction_fails_on_configuration:
  "(encoder_type hp \<notin> {''uni'', ''bi''} \<or> attention hp
      \<or> md = TRAIN \<and> (warmup_scheme hp \<noteq> ''t2t''
                      \<or> decay_scheme hp \<notin> {[], ''luong5'', ''luong10'', ''luong234''})
    \<longrightarrow> (\<exists>e. BaseModel_init (Model_hooks_on f X) X hp md i1 i2 i3 i4 sv tv rs rt scope g
               = Inl e))
   \<and> (md \<noteq> TRAIN \<longrightarrow>
        BaseModel_init (Model_hooks_on f X) X (hp\<lparr>warmup_scheme := w, decay_scheme := d\<rparr>) md
          i1 i2 i3 i4 sv tv rs rt scope g
        = BaseModel_init (Model_hooks_on f X) X hp md i1 i2 i3 i4 sv tv rs rt scope g)
   \<and> (encoder_type hp \<notin> {''uni'', ''bi''} \<and> self_embedding_encoder self \<noteq> None \<longrightarrow>
        Model_build_encoder X self hp vs it emb g1 = Inl (ValueError ''Unknown encoder_type''))
   \<and> (attention hp \<longrightarrow>
        Model_build_decoder_cell X self hp eo es sl
          = Inl (ValueError ''BasicModel does not support attention.''))
   \<and> (warmup_scheme hp \<noteq> ''t2t'' \<longrightarrow>
        get_learning_rate_warmup hp lr = Inl (ValueError ''Unknown warmup scheme''))
   \<and> (decay_scheme hp \<notin> {[], ''luong5'', ''luong10'', ''luong234''} \<longrightarrow>
        get_learning_rate_decay hp lr = Inl (ValueError ''Unknown decay scheme''))"
proof -
  have 1: "\<exists>e. BaseModel_init (Model_hooks_on f X) X hp md i1 i2 i3 i4 sv tv rs rt scope g = Inl e"
    if "encoder_type hp \<notin> {''uni'', ''bi''} \<or> attention hp"
    using that build_graph_passes_unknown_encoder_type[of hp f X]
      build_graph_passes_attention[of hp f X]
    by (intro BaseModel_init_fails_graph build_graph_fails) blast
  have 2: "\<exists>e. BaseModel_init (Model_hooks_on f X) X hp md i1 i2 i3 i4 sv tv rs rt scope g = Inl e"
    if "md = TRAIN" "warmup_scheme hp \<noteq> ''t2t''
         \<or> decay_scheme hp \<notin> {[], ''luong5'', ''luong10'', ''luong234''}"
    using BaseModel_init_fails_training[OF that(2)] that(1) by simp
  have 3: "Model_build_encoder X self hp vs it emb g1 = Inl (ValueError ''Unknown encoder_type'')"
    if "encoder_type hp \<notin> {''uni'', ''bi''}" "self_embedding_encoder self \<noteq> None"
    using that Model_build_encoder_unknown_type_ValueError[of hp self] by auto
  have 4: "Model_build_decoder_cell X self hp eo es sl
          = Inl (ValueError ''BasicModel does not support attention.'')" if "attention hp"
    using that by (simp add: Model_build_decoder_cell_def)
  show ?thesis
    using 1 2 3 4 hp_upd_init[where md = md and f = f and X = X and hp = hp and w = w and d = d]
      get_learning_rate_fails[where hp = hp and lr = lr]
    by blast
qed

theorem construction_fails_on_configuration_witness:
  "(\<exists>e. example_construct (hparams_example\<lparr>attention := True\<rparr>) EVAL = Inl e)
   \<and> (\<exists>e. example_construct (hparams_example\<lparr>encoder_type := ''gnmt''\<rparr>) INFER = Inl e)
   \<and> (\<exists>e. example_construct (hparams_example\<lparr>warmup_scheme := ''noam''\<rparr>) TRAIN = Inl e)
   \<and> (\<exists>e. example_construct (hparams_example\<lparr>decay_scheme := ''cosine''\<rparr>) TRAIN = Inl e)
   \<and> example_construct (hparams_example\<lparr>warmup_scheme := ''noam'', decay_scheme := ''cosine''\<rparr>)
       EVAL
     = example_construct hparams_example EVAL
   \<and> get_learning_rate_warmup (hparams_example\<lparr>warmup_scheme := ''noam''\<rparr>) (\<lambda>gs. Some 1)
     = Inl (ValueError ''Unknown warmup scheme'')
   \<and> get_learning_rate_decay (hparams_example\<lparr>decay_scheme := ''cosine''\<rparr>) (\<lambda>gs. Some 1)
     = Inl (ValueError ''Unknown decay scheme'')"
proof -
  note T = construction_fails_on_configuration[where f = assign_embedding_encoder
      and X = ext_example and ?i1.0 = batch_one and ?i2.0 = batch_two and ?i3.0 = batch_one
      and ?i4.0 = batch_two and sv = vocab_example and tv = vocab_example
      and rs = "Some words_example" and rt = "Some words_example" and scope = None and g = "[]"
      and lr = "\<lambda>gs. Some 1"]
  show ?thesis
    using T[where hp = "hparams_example\<lparr>attention := True\<rparr>" and md = EVAL]
      T[where hp = "hparams_example\<lparr>encoder_type := ''gnmt''\<rparr>" and md = INFER]
      T[where hp = "hparams_example\<lparr>warmup_scheme := ''noam''\<rparr>" and md = TRAIN]
      T[where hp = "hparams_example\<lparr>decay_scheme := ''cosine''\<rparr>" and md = TRAIN]
      T[where hp = hparams_example and md = EVAL and w = "''noam''" and d = "''cosine''"]
    unfolding example_construct_def Example_hooks_def
    by simp
qed

text \<open>In EVAL mode the instance is constructed with a warmup scheme and a decay scheme
  that are not supported; class \<^verbatim>\<open>Model\<close> itself raises there, but the
  \<^verbatim>\<open>AttributeError\<close> of its encoder and no configuration error.\<close>

theorem construction_succeeds_counterexample:
  "map_sum id (\<lambda>(m, g). self_mode m)
     (example_construct (hparams_example\<lparr>warmup_scheme := ''noam'', decay_scheme := ''cosine''\<rparr>)
        EVAL)
   = Inr EVAL
   \<and> Model_init ext_example
       (hparams_example\<lparr>warmup_scheme := ''noam'', decay_scheme := ''cosine''\<rparr>) EVAL
       batch_one batch_two batch_one batch_two vocab_example vocab_example
       (Some words_example) (Some words_example) None []
     = Inl (AttributeError ''embedding_encoder'')"
proof -
  have E: "EVAL \<noteq> TRAIN" by simp
  obtain m where m: "example_construct hparams_example EVAL = Inr (m, example_graph)"
    using example_construct_EVAL by blast
  have U: "example_construct
             (hparams_example\<lparr>warmup_scheme := ''noam'', decay_scheme := ''cosine''\<rparr>) EVAL
           = Inr (m, example_graph)"
    unfolding example_construct_def Example_hooks_def hp_upd_init[OF E]
    using m by (simp add: example_construct_def Example_hooks_def)
  have M: "self_mode m = EVAL"
    using BaseModel_init_mode[OF m[unfolded example_construct_def]] by simp
  have A: "init_attributes ext_example
             (hparams_example\<lparr>warmup_scheme := ''noam'', decay_scheme := ''cosine''\<rparr>) EVAL
             batch_one batch_two batch_one batch_two vocab_example vocab_example None []
           = Inr (example_self EVAL, example_embeddings)"
    by (simp add: hp_upd_attributes example_attributes)
  show ?thesis
    using Model_init_unassigned[OF A] by (simp add: U M)
qed

end
